theory Spec2Isabelle
  imports Main
begin

section \<open>Data model\<close>

text \<open>
  The program copies one image (manifest and layers) between two registries. Everything it
  does beyond computing values is a call to a collaborator (the registry client, the AWS
  SDK, the operating system) or a line printed on standard output. The model threads a
  chronological log of these calls through every function; each log entry records the
  arguments of the call and what the collaborator answered. What a collaborator answers is
  given by an environment of answer functions, each of which sees the log so far, so that
  an answer may depend on everything that happened before (a layer uploaded earlier, a
  second ping failing after a first one succeeded).
\<close>

type_synonym cause = string
  \<comment> \<open>the text of an error value returned by a collaborator (what \<open>%v\<close> prints)\<close>

text \<open>\<open>schema1.FSLayer\<close>, \<open>schema1.Manifest\<close> and \<open>schema1.SignedManifest\<close> are declared
  in the docker distribution library. \<open>Raw\<close> stands for the serialised bytes a signed
  manifest carries next to the embedded manifest.\<close>

record FSLayer =
  BlobSum :: string

record Manifest =
  SchemaVersion :: int
  Name :: string
  Tag :: string
  Architecture :: string
  FSLayers :: "FSLayer list"
  History :: "string list"

record SignedManifest =
  Manifest :: Manifest
  Raw :: string

text \<open>A \<open>*registry.Registry\<close> handle; it records what \<open>registry.New\<close> was given. What the
  client library makes of the URL it is given is not part of the model.\<close>

record Registry =
  URL :: string
  Username :: string
  Password :: string

record RepositoryArguments =
  RegistryURL :: string
  Repository :: string
  Tag_arg :: string

text \<open>One element of \<open>GetAuthorizationTokenOutput.AuthorizationData\<close>; both fields are
  \<open>*string\<close> in the SDK, \<open>None\<close> is the nil pointer.\<close>

record AuthorizationData =
  AuthorizationToken :: "string option"
  ProxyEndpoint :: "string option"

text \<open>The error values built by \<open>fmt.Errorf\<close>, one constructor for each call site.\<close>

datatype error =
    DownloadStartFailed cause
      \<comment> \<open>"Failure while starting the download of an image layer. %v"\<close>
  | CopyFailed cause
      \<comment> \<open>"Failure while copying the image layer to a temp file. %v"\<close>
  | OpenFailed cause
      \<comment> \<open>"Failed to open temporary image layer for uploading. %v"\<close>
  | UploadFailed cause
      \<comment> \<open>"Failure while uploading the image. %v"\<close>
  | HasLayerFailed cause
      \<comment> \<open>"Failure while checking if the destination registry contained an image layer. %v"\<close>
  | TempFileFailed cause
      \<comment> \<open>"Failure while creating temporary file for an image layer download. %v"\<close>
  | SessionFailed cause
      \<comment> \<open>"Failed to create new AWS SDK session. %v"\<close>
  | TokenFailed string cause
      \<comment> \<open>"Failed to get ECR authorization token for registry %s. %v"\<close>
  | DecodeFailed string cause
      \<comment> \<open>"Failed to decode base64 encoded authorization data for ECR registry %s. %v"\<close>
  | NewRegistryFailed string cause
      \<comment> \<open>"Failed to create registry connection for %s. %v"\<close>
  | PingFailed string cause
      \<comment> \<open>"Failed to ping registry %s as a connection test. %v"\<close>

text \<open>The lines written to standard output, one constructor for each print statement.\<close>

datatype message =
    MsgChecking
      \<comment> \<open>"Checking if manifest layer exists in destination registery"\<close>
  | MsgNeedUpload string
      \<comment> \<open>"Need to upload layer", digest, "to the destination"\<close>
  | MsgRemoveFailed string cause
      \<comment> \<open>"Failed to remove image layer temp file %s. %v"\<close>
  | MsgExists
      \<comment> \<open>"Layer already exists in the destination"\<close>
  | MsgSrcRepoRequired
      \<comment> \<open>"A source repository name is required either with --src-repo or --repo"\<close>
  | MsgDestRepoRequired
      \<comment> \<open>"A destination repository name is required either with --dest-repo or --repo"\<close>
  | MsgSrcConnFailed error
      \<comment> \<open>"Failed to establish a connection to the source registry. %v"\<close>
  | MsgDestConnFailed error
      \<comment> \<open>"Failed to establish a connection to the destination registry. %v"\<close>
  | MsgManifestFailed string string string cause
      \<comment> \<open>"Failed to fetch the manifest for %s/%s:%s. %v"\<close>
  | MsgLayerFailed error
      \<comment> \<open>"Failed to migrate image layer. %v"\<close>
  | MsgPutFailed string string string cause
      \<comment> \<open>"Failed to upload manifest to %s/%s:%s. %v"\<close>

text \<open>A run-time panic of the Go program.\<close>

datatype panic = IndexOutOfRange | NilDereference

datatype 'a result = Ok 'a | Err error | Panic panic

text \<open>
  The log. Every call carries its arguments and its answer: \<open>None\<close> is a nil error,
  \<open>Inl c\<close> an error with text \<open>c\<close>. A file is named by its path.
\<close>

datatype event =
    ENewSession string "cause option"
      \<comment> \<open>\<open>session.NewSession\<close>: region\<close>
  | EGetAuthorizationToken string string "cause + AuthorizationData option list"
      \<comment> \<open>\<open>GetAuthorizationToken\<close>: region of the session, registry id\<close>
  | ERegistryNew string string string "cause option"
      \<comment> \<open>\<open>registry.New\<close>: url, username, password\<close>
  | EPing Registry "cause option"
  | EHasLayer Registry string string "cause + bool"
      \<comment> \<open>hub, repository, digest\<close>
  | EDownloadLayer Registry string string "cause option"
      \<comment> \<open>hub, repository, digest; success hands out a reader\<close>
  | ECopy string "cause option"
      \<comment> \<open>\<open>io.Copy\<close> of the reader into the file\<close>
  | EReaderClose
  | ESync string
  | ETempFile "cause + string"
      \<comment> \<open>\<open>ioutil.TempFile\<close>: the path of the new file\<close>
  | EOpen string "cause option"
      \<comment> \<open>\<open>os.Open\<close> for reading\<close>
  | EUploadLayer Registry string string string "cause option"
      \<comment> \<open>hub, repository, digest, path of the file that is streamed\<close>
  | EStreamClose string
  | ERemove string "cause option"
      \<comment> \<open>\<open>os.Remove\<close>\<close>
  | EManifest Registry string string "cause + SignedManifest"
      \<comment> \<open>hub, repository, tag\<close>
  | EPutManifest Registry string string SignedManifest "cause option"
      \<comment> \<open>hub, repository, tag, the manifest object passed\<close>
  | EPrint message

text \<open>The collaborators. Each answer function takes the log so far and the arguments
  of the call.\<close>

record env =
  NewSession :: "event list \<Rightarrow> string \<Rightarrow> cause option"
  GetAuthorizationToken ::
    "event list \<Rightarrow> string \<Rightarrow> string \<Rightarrow> cause + AuthorizationData option list"
  DecodeString :: "string \<Rightarrow> cause + string"
  registry_New :: "event list \<Rightarrow> string \<Rightarrow> string \<Rightarrow> string \<Rightarrow> cause option"
  Ping :: "event list \<Rightarrow> Registry \<Rightarrow> cause option"
  HasLayer :: "event list \<Rightarrow> Registry \<Rightarrow> string \<Rightarrow> string \<Rightarrow> cause + bool"
  DownloadLayer :: "event list \<Rightarrow> Registry \<Rightarrow> string \<Rightarrow> string \<Rightarrow> cause option"
  io_Copy :: "event list \<Rightarrow> string \<Rightarrow> cause option"
  TempFile :: "event list \<Rightarrow> cause + string"
  os_Open :: "event list \<Rightarrow> string \<Rightarrow> cause option"
  UploadLayer :: "event list \<Rightarrow> Registry \<Rightarrow> string \<Rightarrow> string \<Rightarrow> string \<Rightarrow> cause option"
  os_Remove :: "event list \<Rightarrow> string \<Rightarrow> cause option"
  GetManifest :: "event list \<Rightarrow> Registry \<Rightarrow> string \<Rightarrow> string \<Rightarrow> cause + SignedManifest"
  PutManifest :: "event list \<Rightarrow> Registry \<Rightarrow> string \<Rightarrow> string \<Rightarrow> SignedManifest \<Rightarrow> cause option"

section \<open>Migrating one layer\<close>

text \<open>\<open>moveLayerUsingFile\<close>: download into the open temporary file, reopen it, upload.
  The first failure returns at once.\<close>

definition moveLayerUsingFile ::
  "env \<Rightarrow> Registry \<Rightarrow> Registry \<Rightarrow> string \<Rightarrow> string \<Rightarrow> FSLayer \<Rightarrow> string \<Rightarrow> event list
    \<Rightarrow> error option \<times> event list" where
  "moveLayerUsingFile env srcHub destHub srcRepo destRepo layer file tr =
    (let layerDigest = BlobSum layer;
         r1 = DownloadLayer env tr srcHub srcRepo layerDigest;
         tr1 = tr @ [EDownloadLayer srcHub srcRepo layerDigest r1]
     in case r1 of
          Some c \<Rightarrow> (Some (DownloadStartFailed c), tr1)
        | None \<Rightarrow>
           (let r2 = io_Copy env tr1 file;
                tr2 = tr1 @ [ECopy file r2]
            in case r2 of
                 Some c \<Rightarrow> (Some (CopyFailed c), tr2)
               | None \<Rightarrow>
                  (let tr3 = tr2 @ [EReaderClose, ESync file];
                       r3 = os_Open env tr3 file;
                       tr4 = tr3 @ [EOpen file r3]
                   in case r3 of
                        Some c \<Rightarrow> (Some (OpenFailed c), tr4)
                      | None \<Rightarrow>
                         (let r4 = UploadLayer env tr4 destHub destRepo layerDigest file;
                              tr5 = tr4 @ [EUploadLayer destHub destRepo layerDigest file r4,
                                           EStreamClose file]
                          in case r4 of
                               Some c \<Rightarrow> (Some (UploadFailed c), tr5)
                             | None \<Rightarrow> (None, tr5)))))"

text \<open>\<open>migrateLayer\<close>: ask the destination whether it has the layer; if not, stage the
  layer in a temporary file, which is removed whatever \<open>moveLayerUsingFile\<close> returned.\<close>

definition migrateLayer ::
  "env \<Rightarrow> Registry \<Rightarrow> Registry \<Rightarrow> string \<Rightarrow> string \<Rightarrow> FSLayer \<Rightarrow> event list
    \<Rightarrow> error option \<times> event list" where
  "migrateLayer env srcHub destHub srcRepo destRepo layer tr =
    (let tr0 = tr @ [EPrint MsgChecking];
         layerDigest = BlobSum layer;
         r = HasLayer env tr0 destHub destRepo layerDigest;
         tr1 = tr0 @ [EHasLayer destHub destRepo layerDigest r]
     in case r of
          Inl c \<Rightarrow> (Some (HasLayerFailed c), tr1)
        | Inr hasLayer \<Rightarrow>
           if \<not> hasLayer then
             (let tr2 = tr1 @ [EPrint (MsgNeedUpload layerDigest)];
                  t = TempFile env tr2;
                  tr3 = tr2 @ [ETempFile t]
              in case t of
                   Inl c \<Rightarrow> (Some (TempFileFailed c), tr3)
                 | Inr tempFile \<Rightarrow>
                    (let (err, tr4) =
                           moveLayerUsingFile env srcHub destHub srcRepo destRepo layer tempFile tr3;
                         removeErr = os_Remove env tr4 tempFile;
                         tr5 = tr4 @ [ERemove tempFile removeErr];
                         tr6 = (case removeErr of
                                  Some c \<Rightarrow> tr5 @ [EPrint (MsgRemoveFailed tempFile c)]
                                | None \<Rightarrow> tr5)
                     in (err, tr6)))
           else (None, tr1 @ [EPrint MsgExists]))"


text \<open>The loop of \<open>main\<close> over \<open>manifest.FSLayers\<close>: layers are migrated in manifest
  order and the first failure ends the loop.\<close>

fun migrateLayers ::
  "env \<Rightarrow> Registry \<Rightarrow> Registry \<Rightarrow> string \<Rightarrow> string \<Rightarrow> FSLayer list \<Rightarrow> event list
    \<Rightarrow> error option \<times> event list" where
  "migrateLayers env srcHub destHub srcRepo destRepo [] tr = (None, tr)"
| "migrateLayers env srcHub destHub srcRepo destRepo (layer # rest) tr =
    (case migrateLayer env srcHub destHub srcRepo destRepo layer tr of
       (Some e, tr') \<Rightarrow> (Some e, tr')
     | (None, tr') \<Rightarrow> migrateLayers env srcHub destHub srcRepo destRepo rest tr')"

section \<open>Connecting to a registry\<close>

text \<open>
  The pattern
  \<^verbatim>\<open>(?P<account_id>[0-9]{12})\.dkr\.ecr\.(?P<region>[\w\d-]+)\.amazonaws\.com\<close>
  is searched anywhere in the URL, and the program reads the two groups of the first
  (leftmost) match. At a given start the match is unique: twelve digits, the literal
  \<open>.dkr.ecr.\<close>, then the region, whose characters exclude the dot that must follow it, so
  the region is the longest run of region characters.
\<close>

definition is_digit :: "char \<Rightarrow> bool" where
  "is_digit c = (c \<in> set ''0123456789'')"

definition is_region_char :: "char \<Rightarrow> bool" where
  "is_region_char c =
     (c \<in> set ''0123456789ABCDEFGHIJKLMNOPQRSTUVWXYZ_abcdefghijklmnopqrstuvwxyz-'')"

definition ecr_match_here :: "string \<Rightarrow> (string \<times> string) option" where
  "ecr_match_here s =
    (let account_id = take 12 s; rest = drop 12 s
     in if length account_id = 12 \<and> list_all is_digit account_id \<and> take 9 rest = ''.dkr.ecr.''
        then (let region = takeWhile is_region_char (drop 9 rest);
                  tail = dropWhile is_region_char (drop 9 rest)
              in if region \<noteq> [] \<and> take 14 tail = ''.amazonaws.com''
                 then Some (account_id, region) else None)
        else None)"

fun ecr_find :: "string \<Rightarrow> (string \<times> string) option" where
  "ecr_find [] = None"
| "ecr_find (c # cs) =
    (case ecr_match_here (c # cs) of Some m \<Rightarrow> Some m | None \<Rightarrow> ecr_find cs)"

text \<open>\<open>strings.Split(s, sep)\<close> for a separator of one character: the pieces between all
  occurrences of the separator, so one piece more than there are separators.\<close>

fun Split :: "string \<Rightarrow> char \<Rightarrow> string list" where
  "Split [] sep = [[]]"
| "Split (c # cs) sep =
    (if c = sep then [] # Split cs sep
     else (case Split cs sep of p # ps \<Rightarrow> (c # p) # ps | [] \<Rightarrow> [[c]]))"

text \<open>Indexing a slice and following a pointer panic where Go does.\<close>

definition index :: "'a list \<Rightarrow> nat \<Rightarrow> 'a result" where
  "index xs i = (if i < length xs then Ok (xs ! i) else Panic IndexOutOfRange)"

definition deref :: "'a option \<Rightarrow> 'a result" where
  "deref p = (case p of Some x \<Rightarrow> Ok x | None \<Rightarrow> Panic NilDereference)"

definition and_then :: "'a result \<Rightarrow> ('a \<Rightarrow> 'b result) \<Rightarrow> 'b result" where
  "and_then r f = (case r of Ok x \<Rightarrow> f x | Err e \<Rightarrow> Err e | Panic p \<Rightarrow> Panic p)"

text \<open>\<open>connectToRegistry\<close>. For a URL of the ECR form the credentials come from the
  authorization token and the URL from its proxy endpoint; any other URL is used as it is,
  with empty credentials. Then the client is built and pinged.\<close>

definition connectToRegistry ::
  "env \<Rightarrow> RepositoryArguments \<Rightarrow> event list \<Rightarrow> Registry result \<times> event list" where
  "connectToRegistry env args tr =
    (let origUrl = RegistryURL args;
         (creds, tr1) =
           (case ecr_find origUrl of
              None \<Rightarrow> (Ok (origUrl, [], []), tr)
            | Some (registryId, region) \<Rightarrow>
               (let s = NewSession env tr region;
                    trs = tr @ [ENewSession region s]
                in case s of
                     Some c \<Rightarrow> (Err (SessionFailed c), trs)
                   | None \<Rightarrow>
                      (let resp = GetAuthorizationToken env trs region registryId;
                           trt = trs @ [EGetAuthorizationToken region registryId resp]
                       in case resp of
                            Inl c \<Rightarrow> (Err (TokenFailed registryId c), trt)
                          | Inr authData \<Rightarrow>
                             (and_then (index authData 0) (\<lambda>p0.
                              and_then (deref p0) (\<lambda>auth.
                              and_then (deref (AuthorizationToken auth)) (\<lambda>token.
                                case DecodeString env token of
                                  Inl c \<Rightarrow> Err (DecodeFailed registryId c)
                                | Inr decoded \<Rightarrow>
                                   (let parts = Split decoded CHR '':''
                                    in and_then (deref (ProxyEndpoint auth)) (\<lambda>url.
                                       and_then (index parts 0) (\<lambda>username.
                                       and_then (index parts 1) (\<lambda>password.
                                         Ok (url, username, password)))))))),
                              trt))))
     in case creds of
          Err e \<Rightarrow> (Err e, tr1)
        | Panic p \<Rightarrow> (Panic p, tr1)
        | Ok (url, username, password) \<Rightarrow>
           (let n = registry_New env tr1 url username password;
                tr2 = tr1 @ [ERegistryNew url username password n]
            in case n of
                 Some c \<Rightarrow> (Err (NewRegistryFailed origUrl c), tr2)
               | None \<Rightarrow>
                  (let registry = \<lparr>URL = url, Username = username, Password = password\<rparr>;
                       p = Ping env tr2 registry;
                       tr3 = tr2 @ [EPing registry p]
                   in case p of
                        Some c \<Rightarrow> (Err (PingFailed origUrl c), tr3)
                      | None \<Rightarrow> (Ok registry, tr3))))"

section \<open>The whole migration\<close>

text \<open>The values of the command-line flags after \<open>kingpin.Parse()\<close>.\<close>

record flags =
  src_url :: string
  src_repo :: string
  src_tag :: string
  dest_url :: string
  dest_repo :: string
  dest_tag :: string
  repo :: string
  tag :: string

text \<open>The fallbacks of \<open>main\<close>: an empty repository or tag of one side is replaced by
  \<open>--repo\<close> or \<open>--tag\<close>.\<close>

definition with_fallback :: "RepositoryArguments \<Rightarrow> string \<Rightarrow> string \<Rightarrow> RepositoryArguments" where
  "with_fallback args repoArg tagArg =
    (let args1 = (if Repository args = [] then args\<lparr>Repository := repoArg\<rparr> else args)
     in if Tag_arg args1 = [] then args1\<lparr>Tag_arg := tagArg\<rparr> else args1)"

definition srcArgs :: "flags \<Rightarrow> RepositoryArguments" where
  "srcArgs fl =
    with_fallback \<lparr>RegistryURL = src_url fl, Repository = src_repo fl, Tag_arg = src_tag fl\<rparr>
      (repo fl) (tag fl)"

definition destArgs :: "flags \<Rightarrow> RepositoryArguments" where
  "destArgs fl =
    with_fallback \<lparr>RegistryURL = dest_url fl, Repository = dest_repo fl, Tag_arg = dest_tag fl\<rparr>
      (repo fl) (tag fl)"

text \<open>
  What a run of \<open>main\<close> leaves behind: the exit code, the log, and the manifest objects it
  held. Manifest objects live in a store addressed by position, because \<open>main\<close> holds
  pointers to them and assigns to a field through one of them. The struct literal that
  builds the destination object copies the embedded manifest and leaves the other field at
  its zero value. The layer and history slices are only ever read, so they are values here.
\<close>

record outcome =
  exitCode :: int
  trace :: "event list"
  heap :: "SignedManifest list"

definition alloc :: "SignedManifest list \<Rightarrow> SignedManifest \<Rightarrow> nat \<times> SignedManifest list" where
  "alloc h v = (length h, h @ [v])"

text \<open>
  \<open>main\<close>. The exit code is a variable that a deferred function hands to \<open>os.Exit\<close>. A panic
  runs the deferred function too, at a point where the variable still holds 0.
\<close>

definition main :: "env \<Rightarrow> flags \<Rightarrow> outcome" where
  "main env fl =
    (let src = srcArgs fl; dest = destArgs fl
     in if Repository src = [] then
          \<lparr>exitCode = - 1, trace = [EPrint MsgSrcRepoRequired], heap = []\<rparr>
        else if Repository dest = [] then
          \<lparr>exitCode = - 1, trace = [EPrint MsgDestRepoRequired], heap = []\<rparr>
        else
          (case connectToRegistry env src [] of
             (Panic p, tr1) \<Rightarrow> \<lparr>exitCode = 0, trace = tr1, heap = []\<rparr>
           | (Err e, tr1) \<Rightarrow>
               \<lparr>exitCode = - 1, trace = tr1 @ [EPrint (MsgSrcConnFailed e)], heap = []\<rparr>
           | (Ok srcHub, tr1) \<Rightarrow>
              (case connectToRegistry env dest tr1 of
                 (Panic p, tr2) \<Rightarrow> \<lparr>exitCode = 0, trace = tr2, heap = []\<rparr>
               | (Err e, tr2) \<Rightarrow>
                   \<lparr>exitCode = - 1, trace = tr2 @ [EPrint (MsgDestConnFailed e)], heap = []\<rparr>
               | (Ok destHub, tr2) \<Rightarrow>
                  (let m = GetManifest env tr2 srcHub (Repository src) (Tag_arg src);
                       tr3 = tr2 @ [EManifest srcHub (Repository src) (Tag_arg src) m]
                   in case m of
                        Inl c \<Rightarrow>
                          \<lparr>exitCode = - 1,
                           trace = tr3 @ [EPrint (MsgManifestFailed (URL srcHub) (Repository src)
                                                    (Tag_arg src) c)],
                           heap = []\<rparr>
                      | Inr fetched \<Rightarrow>
                         (let (manifest, h1) = alloc [] fetched;
                              (err, tr4) =
                                migrateLayers env srcHub destHub (Repository src) (Repository dest)
                                  (FSLayers (Manifest (h1 ! manifest))) tr3
                          in case err of
                               Some e \<Rightarrow>
                                 \<lparr>exitCode = - 1, trace = tr4 @ [EPrint (MsgLayerFailed e)],
                                  heap = h1\<rparr>
                             | None \<Rightarrow>
                                (let (destManifest, h2) =
                                       alloc h1 \<lparr>Manifest = Manifest (h1 ! manifest), Raw = []\<rparr>;
                                     h3 = h2[destManifest :=
                                            (h2 ! destManifest)\<lparr>Manifest :=
                                               (Manifest (h2 ! destManifest))
                                                 \<lparr>Name := Repository dest\<rparr>\<rparr>];
                                     r = PutManifest env tr4 destHub (Repository dest)
                                           (Tag_arg dest) (h3 ! destManifest);
                                     tr5 = tr4 @ [EPutManifest destHub (Repository dest)
                                                    (Tag_arg dest) (h3 ! destManifest) r]
                                 in case r of
                                      Some c \<Rightarrow>
                                        \<lparr>exitCode = - 1,
                                         trace = tr5 @ [EPrint (MsgPutFailed (URL destHub)
                                                          (Repository dest) (Tag_arg dest) c)],
                                         heap = h3\<rparr>
                                    | None \<Rightarrow> \<lparr>exitCode = 0, trace = tr5, heap = h3\<rparr>))))))"


section \<open>Reading the log\<close>

definition added :: "event list \<Rightarrow> event list \<Rightarrow> event list" where
  \<comment> \<open>what a call appended to the log \<open>tr\<close> it started from\<close>
  "added tr tr' = drop (length tr) tr'"

definition calls :: "(event \<Rightarrow> bool) \<Rightarrow> event list \<Rightarrow> nat" where
  "calls P evs = length (filter P evs)"

definition is_download :: "event \<Rightarrow> bool" where
  "is_download e = (case e of EDownloadLayer _ _ _ _ \<Rightarrow> True | _ \<Rightarrow> False)"

definition is_upload :: "event \<Rightarrow> bool" where
  "is_upload e = (case e of EUploadLayer _ _ _ _ _ \<Rightarrow> True | _ \<Rightarrow> False)"

definition is_registry_write :: "event \<Rightarrow> bool" where
  \<comment> \<open>the two calls that change a registry\<close>
  "is_registry_write e =
     (case e of EUploadLayer _ _ _ _ _ \<Rightarrow> True | EPutManifest _ _ _ _ _ \<Rightarrow> True | _ \<Rightarrow> False)"


definition is_layer_op :: "event \<Rightarrow> bool" where
  "is_layer_op e =
     (case e of EHasLayer _ _ _ _ \<Rightarrow> True | EDownloadLayer _ _ _ _ \<Rightarrow> True
              | EUploadLayer _ _ _ _ _ \<Rightarrow> True | _ \<Rightarrow> False)"

definition is_credential_exchange :: "event \<Rightarrow> bool" where
  "is_credential_exchange e =
     (case e of ENewSession _ _ \<Rightarrow> True | EGetAuthorizationToken _ _ _ \<Rightarrow> True | _ \<Rightarrow> False)"

definition is_network :: "event \<Rightarrow> bool" where
  \<comment> \<open>every call that leaves the machine: the AWS SDK and the registry client\<close>
  "is_network e =
     (case e of
        ENewSession _ _ \<Rightarrow> True | EGetAuthorizationToken _ _ _ \<Rightarrow> True
      | ERegistryNew _ _ _ _ \<Rightarrow> True | EPing _ _ \<Rightarrow> True | EHasLayer _ _ _ _ \<Rightarrow> True
      | EDownloadLayer _ _ _ _ \<Rightarrow> True | ECopy _ _ \<Rightarrow> True | EUploadLayer _ _ _ _ _ \<Rightarrow> True
      | EManifest _ _ _ _ \<Rightarrow> True | EPutManifest _ _ _ _ _ \<Rightarrow> True | _ \<Rightarrow> False)"

text \<open>The events that connecting may add, and those that migrating layers may add.\<close>

definition connect_event :: "event \<Rightarrow> bool" where
  "connect_event e =
     (case e of ENewSession _ _ \<Rightarrow> True | EGetAuthorizationToken _ _ _ \<Rightarrow> True
              | ERegistryNew _ _ _ _ \<Rightarrow> True | EPing _ _ \<Rightarrow> True | _ \<Rightarrow> False)"

definition layer_event :: "event \<Rightarrow> bool" where
  "layer_event e =
     (case e of
        EHasLayer _ _ _ _ \<Rightarrow> True | EDownloadLayer _ _ _ _ \<Rightarrow> True | ECopy _ _ \<Rightarrow> True
      | EReaderClose \<Rightarrow> True | ESync _ \<Rightarrow> True | ETempFile _ \<Rightarrow> True | EOpen _ _ \<Rightarrow> True
      | EUploadLayer _ _ _ _ _ \<Rightarrow> True | EStreamClose _ \<Rightarrow> True | ERemove _ _ \<Rightarrow> True
      | EPrint m \<Rightarrow> (case m of MsgChecking \<Rightarrow> True | MsgNeedUpload _ \<Rightarrow> True
                             | MsgRemoveFailed _ _ \<Rightarrow> True | MsgExists \<Rightarrow> True | _ \<Rightarrow> False)
      | _ \<Rightarrow> False)"

text \<open>The events of a staged transfer that come before \<open>moveLayerUsingFile\<close> runs.\<close>

definition staging :: "Registry \<Rightarrow> string \<Rightarrow> string \<Rightarrow> string \<Rightarrow> event list" where
  "staging destHub destRepo digest f =
     [EPrint MsgChecking, EHasLayer destHub destRepo digest (Inr False),
      EPrint (MsgNeedUpload digest), ETempFile (Inr f)]"

text \<open>The events that end a staged transfer: the removal and, if it failed, its report.\<close>

definition cleanup :: "string \<Rightarrow> cause option \<Rightarrow> event list" where
  "cleanup f removeErr =
     ERemove f removeErr #
     (case removeErr of None \<Rightarrow> [] | Some c \<Rightarrow> [EPrint (MsgRemoveFailed f c)])"

section \<open>The vocabulary of the specification\<close>

text \<open>The error taxonomy of the specification (its section 7), read onto the error
  values of the program. What \<open>main\<close> finds wrong itself (a missing repository name, the
  manifest that cannot be fetched or published) it reports in a message of its own.\<close>

datatype error_class =
  ConfigError | AuthResolutionError | ConnectionError | ManifestFetchError | LayerError
  | ManifestPublishError

definition class_of :: "error \<Rightarrow> error_class" where
  "class_of e =
     (case e of
        SessionFailed _ \<Rightarrow> AuthResolutionError
      | TokenFailed _ _ \<Rightarrow> AuthResolutionError
      | DecodeFailed _ _ \<Rightarrow> AuthResolutionError
      | NewRegistryFailed _ _ \<Rightarrow> ConnectionError
      | PingFailed _ _ \<Rightarrow> ConnectionError
      | _ \<Rightarrow> LayerError)"

text \<open>The invariant of a registry endpoint in the specification (its section 3), read on
  the call that builds the client: username and password are both empty or both set.\<close>

definition credentials_paired :: "event \<Rightarrow> bool" where
  "credentials_paired e =
     (case e of ERegistryNew url username password _ \<Rightarrow> (username = [] \<longleftrightarrow> password = [])
              | _ \<Rightarrow> True)"

text \<open>The split of a decoded token as the specification words it: the username is the
  text before the first colon, the password all the text after it.\<close>

definition spec_username :: "string \<Rightarrow> string" where
  "spec_username s = takeWhile (\<lambda>c. c \<noteq> CHR '':'') s"

definition spec_password :: "string \<Rightarrow> string" where
  "spec_password s = tl (dropWhile (\<lambda>c. c \<noteq> CHR '':'') s)"

section \<open>A simulated world\<close>

text \<open>
  \<open>base64.StdEncoding.DecodeString\<close>: the standard alphabet, full quanta of four characters
  with \<open>=\<close> padding in the last one, line breaks ignored. The theorems below hold for any
  decoder; this one serves the examples.
\<close>

definition b64_value :: "char \<Rightarrow> nat option" where
  "b64_value c =
    (let n = of_char c :: nat
     in if 65 \<le> n \<and> n \<le> 90 then Some (n - 65)
        else if 97 \<le> n \<and> n \<le> 122 then Some (n - 71)
        else if 48 \<le> n \<and> n \<le> 57 then Some (n + 4)
        else if n = 43 then Some 62
        else if n = 47 then Some 63
        else None)"

definition byte :: "nat \<Rightarrow> char" where
  "byte n = Char (odd n) (odd (n div 2)) (odd (n div 4)) (odd (n div 8))
                 (odd (n div 16)) (odd (n div 32)) (odd (n div 64)) (odd (n div 128))"

definition quantum :: "char \<Rightarrow> char \<Rightarrow> char \<Rightarrow> char \<Rightarrow> bool \<Rightarrow> string option" where
  "quantum a b c d final =
    (case (b64_value a, b64_value b) of
       (Some x, Some y) \<Rightarrow>
         (if final \<and> c = CHR ''='' then
            (if d = CHR ''='' then Some [byte (x * 4 + y div 16)] else None)
          else (case b64_value c of
                  None \<Rightarrow> None
                | Some z \<Rightarrow>
                   (if final \<and> d = CHR ''='' then
                      Some [byte (x * 4 + y div 16), byte (y * 16 + z div 4)]
                    else (case b64_value d of
                            None \<Rightarrow> None
                          | Some w \<Rightarrow>
                              Some [byte (x * 4 + y div 16), byte (y * 16 + z div 4),
                                    byte (z * 64 + w)]))))
     | _ \<Rightarrow> None)"

fun decode_quanta :: "string \<Rightarrow> string option" where
  "decode_quanta (a # b # c # d # rest) =
    (case quantum a b c d (rest = []) of
       None \<Rightarrow> None
     | Some bytes \<Rightarrow> map_option ((@) bytes) (decode_quanta rest))"
| "decode_quanta [] = Some []"
| "decode_quanta _ = None"

definition StdEncoding_DecodeString :: "string \<Rightarrow> cause + string" where
  "StdEncoding_DecodeString s =
    (case decode_quanta (filter (\<lambda>c. c \<noteq> CHR 0x0A \<and> c \<noteq> CHR 0x0D) s) of
       Some bytes \<Rightarrow> Inr bytes
     | None \<Rightarrow> Inl ''illegal base64 data'')"

text \<open>
  A world in which everything works, with two exceptions: the registry at
  \<open>https://down.example.com\<close> does not answer the ping, and the blob \<open>sha256:missing\<close>
  cannot be downloaded. A registry has the layer \<open>sha256:d1\<close> from the start and every
  layer that the log shows as uploaded to it. The image has the layers \<open>d1\<close> and \<open>d2\<close>.
  The parameter is the authorization token that ECR hands out.
\<close>

definition uploaded :: "event list \<Rightarrow> Registry \<Rightarrow> string \<Rightarrow> string \<Rightarrow> bool" where
  "uploaded tr hub r d =
     list_ex (\<lambda>e. case e of EUploadLayer h r' d' _ None \<Rightarrow> h = hub \<and> r' = r \<and> d' = d
                           | _ \<Rightarrow> False) tr"

definition example_image :: "string \<Rightarrow> string \<Rightarrow> SignedManifest" where
  "example_image r t =
     \<lparr>Manifest = \<lparr>SchemaVersion = 1, Name = r, Tag = t, Architecture = ''amd64'',
                  FSLayers = [\<lparr>BlobSum = ''sha256:d1''\<rparr>, \<lparr>BlobSum = ''sha256:d2''\<rparr>],
                  History = [''{}'', ''{}'']\<rparr>,
      Raw = ''signed''\<rparr>"

definition world :: "string \<Rightarrow> env" where
  "world token =
    \<lparr>NewSession = (\<lambda>tr region. None),
     GetAuthorizationToken = (\<lambda>tr region registryId.
        Inr [Some \<lparr>AuthorizationToken = Some token,
                   ProxyEndpoint = Some ''https://proxy.example.com''\<rparr>]),
     DecodeString = StdEncoding_DecodeString,
     registry_New = (\<lambda>tr url username password. None),
     Ping = (\<lambda>tr hub. if URL hub = ''https://down.example.com''
                       then Some ''connection refused'' else None),
     HasLayer = (\<lambda>tr hub r d. Inr (d = ''sha256:d1'' \<or> uploaded tr hub r d)),
     DownloadLayer = (\<lambda>tr hub r d. if d = ''sha256:missing'' then Some ''blob unknown'' else None),
     io_Copy = (\<lambda>tr f. None),
     TempFile = (\<lambda>tr. Inr ''/tmp/docker-image042''),
     os_Open = (\<lambda>tr f. None),
     UploadLayer = (\<lambda>tr hub r d f. None),
     os_Remove = (\<lambda>tr f. None),
     GetManifest = (\<lambda>tr hub r t. Inr (example_image r t)),
     PutManifest = (\<lambda>tr hub r t m. None)\<rparr>"

definition hub_a :: Registry where
  "hub_a = \<lparr>URL = ''https://a.example.com'', Username = [], Password = []\<rparr>"

definition hub_b :: Registry where
  "hub_b = \<lparr>URL = ''https://b.example.com'', Username = [], Password = []\<rparr>"

definition ecr_args :: RepositoryArguments where
  "ecr_args = \<lparr>RegistryURL = ''https://123456789012.dkr.ecr.us-east-1.amazonaws.com'',
               Repository = ''app'', Tag_arg = ''latest''\<rparr>"

definition plain_args :: RepositoryArguments where
  "plain_args = \<lparr>RegistryURL = ''https://a.example.com'', Repository = ''app'',
                 Tag_arg = ''latest''\<rparr>"

definition copy_flags :: flags where
  "copy_flags =
     \<lparr>src_url = ''https://a.example.com'', src_repo = ''team/app'', src_tag = [],
      dest_url = ''https://b.example.com'', dest_repo = [], dest_tag = ''v1'',
      repo = ''app'', tag = ''latest''\<rparr>"

text \<open>Variants of the flags: a destination that is down, no repository name for the
  source, a destination at ECR.\<close>

definition down_flags :: flags where
  "down_flags = copy_flags\<lparr>dest_url := ''https://down.example.com''\<rparr>"

definition no_repo_flags :: flags where
  "no_repo_flags = copy_flags\<lparr>dest_repo := ''app'', src_repo := [], repo := []\<rparr>"

definition ecr_flags :: flags where
  "ecr_flags = copy_flags\<lparr>dest_url := ''https://123456789012.dkr.ecr.us-east-1.amazonaws.com''\<rparr>"

text \<open>What the example run publishes.\<close>

definition published_image :: SignedManifest where
  "published_image =
     \<lparr>Manifest = \<lparr>SchemaVersion = 1, Name = ''app'', Tag = ''latest'', Architecture = ''amd64'',
                  FSLayers = [\<lparr>BlobSum = ''sha256:d1''\<rparr>, \<lparr>BlobSum = ''sha256:d2''\<rparr>],
                  History = [''{}'', ''{}'']\<rparr>,
      Raw = []\<rparr>"

text \<open>The log after the layer \<open>d2\<close> has been migrated from \<open>hub_a\<close> to \<open>hub_b\<close>.\<close>

definition after_d2 :: "event list" where
  "after_d2 = snd (migrateLayer (world []) hub_a hub_b ''app'' ''app'' \<lparr>BlobSum = ''sha256:d2''\<rparr> [])"

section \<open>Facts about the log\<close>

lemma added_append [simp]: "added tr (tr @ evs) = evs"
  by (simp add: added_def)

lemma added_same [simp]: "added tr tr = []"
  by (simp add: added_def)

lemma calls_Nil [simp]: "calls P [] = 0"
  by (simp add: calls_def)

lemma calls_Cons [simp]: "calls P (e # evs) = (if P e then Suc (calls P evs) else calls P evs)"
  by (simp add: calls_def)

lemma calls_append [simp]: "calls P (xs @ ys) = calls P xs + calls P ys"
  by (simp add: calls_def)

lemma calls_0_iff: "calls P evs = 0 \<longleftrightarrow> (\<forall>e \<in> set evs. \<not> P e)"
  by (simp add: calls_def filter_empty_conv)

lemma connect_events_exclude:
  assumes "list_all connect_event evs"
  shows "EPrint m \<notin> set evs" and "EPutManifest hub r t published answer \<notin> set evs"
  using assms by (auto simp: list_all_iff connect_event_def)

lemma layer_events_exclude:
  assumes "list_all layer_event evs"
  shows "EPrint (MsgDestConnFailed e) \<notin> set evs"
    and "EPutManifest hub r t published answer \<notin> set evs"
  using assms by (auto simp: list_all_iff layer_event_def)

lemma connect_event_no_layer_op: "connect_event e \<Longrightarrow> \<not> is_layer_op e"
  by (cases e) (simp_all add: connect_event_def is_layer_op_def)

lemma connect_events_no_layer_op: "list_all connect_event evs \<Longrightarrow> calls is_layer_op evs = 0"
  by (auto simp: calls_0_iff list_all_iff connect_event_no_layer_op)

section \<open>One layer\<close>

text \<open>The four ways \<open>moveLayerUsingFile\<close> can go, each with the events it adds.\<close>

lemma moveLayerUsingFile_cases:
  fixes env srcHub destHub srcRepo destRepo layer f tr
  defines "d \<equiv> BlobSum layer"
  defines "run \<equiv> moveLayerUsingFile env srcHub destHub srcRepo destRepo layer f tr"
  shows
   "(\<exists>c. run = (Some (DownloadStartFailed c), tr @ [EDownloadLayer srcHub srcRepo d (Some c)]))
  \<or> (\<exists>c. run = (Some (CopyFailed c),
              tr @ [EDownloadLayer srcHub srcRepo d None, ECopy f (Some c)]))
  \<or> (\<exists>c. run = (Some (OpenFailed c),
              tr @ [EDownloadLayer srcHub srcRepo d None, ECopy f None, EReaderClose, ESync f,
                    EOpen f (Some c)]))
  \<or> (\<exists>r. run = (map_option UploadFailed r,
              tr @ [EDownloadLayer srcHub srcRepo d None, ECopy f None, EReaderClose, ESync f,
                    EOpen f None, EUploadLayer destHub destRepo d f r, EStreamClose f]))"
  unfolding run_def d_def moveLayerUsingFile_def
  by (simp add: Let_def split: option.splits)

lemma moveLayerUsingFile_extends:
  "\<exists>evs. snd (moveLayerUsingFile env srcHub destHub srcRepo destRepo layer f tr) = tr @ evs"
  using moveLayerUsingFile_cases [of env srcHub destHub srcRepo destRepo layer f tr]
  by auto

text \<open>The four ways \<open>migrateLayer\<close> can go.\<close>

lemma migrateLayer_cases:
  fixes env srcHub destHub srcRepo destRepo layer tr
  defines "d \<equiv> BlobSum layer"
  defines "run \<equiv> migrateLayer env srcHub destHub srcRepo destRepo layer tr"
  shows
   "(\<exists>c. run = (Some (HasLayerFailed c),
               tr @ [EPrint MsgChecking, EHasLayer destHub destRepo d (Inl c)]))
  \<or> run = (None, tr @ [EPrint MsgChecking, EHasLayer destHub destRepo d (Inr True),
                        EPrint MsgExists])
  \<or> (\<exists>c. run = (Some (TempFileFailed c),
               tr @ [EPrint MsgChecking, EHasLayer destHub destRepo d (Inr False),
                     EPrint (MsgNeedUpload d), ETempFile (Inl c)]))
  \<or> (\<exists>f err evs removeErr.
        moveLayerUsingFile env srcHub destHub srcRepo destRepo layer f
          (tr @ staging destHub destRepo d f) = (err, (tr @ staging destHub destRepo d f) @ evs)
      \<and> run = (err, tr @ staging destHub destRepo d f @ evs @ cleanup f removeErr))"
proof -
  let ?tr0 = "tr @ [EPrint MsgChecking]"
  show ?thesis
  proof (cases "HasLayer env ?tr0 destHub destRepo d")
    case (Inl c)
    then have "run = (Some (HasLayerFailed c),
                      tr @ [EPrint MsgChecking, EHasLayer destHub destRepo d (Inl c)])"
      by (simp add: run_def d_def migrateLayer_def Let_def)
    then show ?thesis by blast
  next
    case (Inr hasLayer)
    show ?thesis
    proof (cases hasLayer)
      case True
      with Inr have "run = (None, tr @ [EPrint MsgChecking, EHasLayer destHub destRepo d (Inr True),
                                        EPrint MsgExists])"
        by (simp add: run_def d_def migrateLayer_def Let_def)
      then show ?thesis by blast
    next
      case False
      let ?tr2 = "tr @ [EPrint MsgChecking, EHasLayer destHub destRepo d (Inr False),
                        EPrint (MsgNeedUpload d)]"
      show ?thesis
      proof (cases "TempFile env ?tr2")
        case (Inl c)
        with Inr False have "run = (Some (TempFileFailed c), ?tr2 @ [ETempFile (Inl c)])"
          by (simp add: run_def d_def migrateLayer_def Let_def)
        then show ?thesis by auto
      next
        case tmp: (Inr f)
        let ?tr3 = "tr @ staging destHub destRepo d f"
        obtain err tr4 where
          mv: "moveLayerUsingFile env srcHub destHub srcRepo destRepo layer f ?tr3 = (err, tr4)"
          by (cases "moveLayerUsingFile env srcHub destHub srcRepo destRepo layer f ?tr3")
        obtain evs where evs: "tr4 = ?tr3 @ evs"
          using moveLayerUsingFile_extends [of env srcHub destHub srcRepo destRepo layer f ?tr3] mv
          by auto
        have "run = (err, tr4 @ cleanup f (os_Remove env tr4 f))"
          using Inr False tmp mv
          by (simp add: run_def d_def migrateLayer_def Let_def staging_def cleanup_def
                   split: option.splits)
        with mv evs show ?thesis by auto
      qed
    qed
  qed
qed

text \<open>The events of a transfer, read off a run of \<open>moveLayerUsingFile\<close>.\<close>

lemma moveLayerUsingFile_shape:
  assumes "moveLayerUsingFile env srcHub destHub srcRepo destRepo layer f tr0 = (err, tr0 @ evs)"
  shows
   "(\<exists>c. err = Some (DownloadStartFailed c)
        \<and> evs = [EDownloadLayer srcHub srcRepo (BlobSum layer) (Some c)])
  \<or> (\<exists>c. err = Some (CopyFailed c)
        \<and> evs = [EDownloadLayer srcHub srcRepo (BlobSum layer) None, ECopy f (Some c)])
  \<or> (\<exists>c. err = Some (OpenFailed c)
        \<and> evs = [EDownloadLayer srcHub srcRepo (BlobSum layer) None, ECopy f None, EReaderClose,
                  ESync f, EOpen f (Some c)])
  \<or> (\<exists>r. err = map_option UploadFailed r
        \<and> evs = [EDownloadLayer srcHub srcRepo (BlobSum layer) None, ECopy f None, EReaderClose,
                  ESync f, EOpen f None, EUploadLayer destHub destRepo (BlobSum layer) f r,
                  EStreamClose f])"
  using moveLayerUsingFile_cases [of env srcHub destHub srcRepo destRepo layer f tr0] assms
  by auto

text \<open>A run of \<open>migrateLayer\<close>, with the log it started from taken off.\<close>

lemma migrateLayer_added:
  assumes "migrateLayer env srcHub destHub srcRepo destRepo layer tr = (err, tr')"
  obtains
    (check) c where "err = Some (HasLayerFailed c)"
      "added tr tr' = [EPrint MsgChecking, EHasLayer destHub destRepo (BlobSum layer) (Inl c)]"
  | (present) "err = None"
      "added tr tr' = [EPrint MsgChecking, EHasLayer destHub destRepo (BlobSum layer) (Inr True),
                       EPrint MsgExists]"
  | (temp) c where "err = Some (TempFileFailed c)"
      "added tr tr' = [EPrint MsgChecking, EHasLayer destHub destRepo (BlobSum layer) (Inr False),
                       EPrint (MsgNeedUpload (BlobSum layer)), ETempFile (Inl c)]"
  | (staged) f evs removeErr where
      "moveLayerUsingFile env srcHub destHub srcRepo destRepo layer f
         (tr @ staging destHub destRepo (BlobSum layer) f)
        = (err, (tr @ staging destHub destRepo (BlobSum layer) f) @ evs)"
      "added tr tr' = staging destHub destRepo (BlobSum layer) f @ evs @ cleanup f removeErr"
proof -
  from migrateLayer_cases [of env srcHub destHub srcRepo destRepo layer tr]
  show thesis
  proof (elim disjE exE conjE)
    fix c
    assume "migrateLayer env srcHub destHub srcRepo destRepo layer tr =
            (Some (HasLayerFailed c),
             tr @ [EPrint MsgChecking, EHasLayer destHub destRepo (BlobSum layer) (Inl c)])"
    with assms show thesis by (intro check [of c]) auto
  next
    assume "migrateLayer env srcHub destHub srcRepo destRepo layer tr =
            (None, tr @ [EPrint MsgChecking, EHasLayer destHub destRepo (BlobSum layer) (Inr True),
                         EPrint MsgExists])"
    with assms show thesis by (intro present) auto
  next
    fix c
    assume "migrateLayer env srcHub destHub srcRepo destRepo layer tr =
            (Some (TempFileFailed c),
             tr @ [EPrint MsgChecking, EHasLayer destHub destRepo (BlobSum layer) (Inr False),
                   EPrint (MsgNeedUpload (BlobSum layer)), ETempFile (Inl c)])"
    with assms show thesis by (intro temp [of c]) auto
  next
    fix f e evs removeErr
    assume "moveLayerUsingFile env srcHub destHub srcRepo destRepo layer f
              (tr @ staging destHub destRepo (BlobSum layer) f)
             = (e, (tr @ staging destHub destRepo (BlobSum layer) f) @ evs)"
      and "migrateLayer env srcHub destHub srcRepo destRepo layer tr =
             (e, tr @ staging destHub destRepo (BlobSum layer) f @ evs @ cleanup f removeErr)"
    with assms show thesis by (intro staged [of f evs removeErr]) auto
  qed
qed

lemma migrateLayer_prefix:
  assumes "migrateLayer env srcHub destHub srcRepo destRepo layer tr = (err, tr')"
  shows "tr' = tr @ added tr tr'"
  using migrateLayer_cases [of env srcHub destHub srcRepo destRepo layer tr] assms
  by auto

lemma migrateLayer_events:
  assumes "migrateLayer env srcHub destHub srcRepo destRepo layer tr = (err, tr')"
  shows "\<exists>evs. tr' = tr @ evs \<and> list_all layer_event evs"
proof -
  have "list_all layer_event (added tr tr')"
    using assms
  proof (cases rule: migrateLayer_added)
    case (staged f evs removeErr)
    from moveLayerUsingFile_shape [OF staged(1)] show ?thesis
      by (auto simp: staged(2) staging_def cleanup_def layer_event_def split: option.splits)
  qed (simp_all add: layer_event_def)
  with migrateLayer_prefix [OF assms] show ?thesis by blast
qed

lemma migrateLayers_events:
  assumes "migrateLayers env srcHub destHub srcRepo destRepo layers tr = (err, tr')"
  shows "\<exists>evs. tr' = tr @ evs \<and> list_all layer_event evs"
  using assms
proof (induction layers arbitrary: tr)
  case Nil
  then show ?case by simp
next
  case (Cons layer rest)
  obtain e tr1 where one: "migrateLayer env srcHub destHub srcRepo destRepo layer tr = (e, tr1)"
    by (cases "migrateLayer env srcHub destHub srcRepo destRepo layer tr")
  from migrateLayer_events [OF one] obtain evs1 where
    evs1: "tr1 = tr @ evs1" "list_all layer_event evs1" by blast
  show ?case
  proof (cases e)
    case None
    with Cons.prems one
    have "migrateLayers env srcHub destHub srcRepo destRepo rest tr1 = (err, tr')" by simp
    from Cons.IH [OF this] obtain evs2 where "tr' = tr1 @ evs2" "list_all layer_event evs2"
      by blast
    with evs1 have "tr' = tr @ (evs1 @ evs2) \<and> list_all layer_event (evs1 @ evs2)" by simp
    then show ?thesis by blast
  next
    case (Some x)
    with Cons.prems one evs1 show ?thesis by auto
  qed
qed

subsection \<open>A layer the destination has\<close>

text \<open>
  Claim C1. When the destination answers that it has the layer, \<open>migrateLayer\<close> returns
  success and has made no \<open>DownloadLayer\<close> and no \<open>UploadLayer\<close> call: all it added to the
  log is the question, its answer and the two lines it prints. Migrating a layer that has
  been migrated before is such a run.
\<close>
theorem migrateLayer_present_is_skipped:
  assumes "migrateLayer env srcHub destHub srcRepo destRepo layer tr = (err, tr')"
    and "EHasLayer destHub destRepo (BlobSum layer) (Inr True) \<in> set (added tr tr')"
  shows "err = None \<and> calls is_download (added tr tr') = 0 \<and> calls is_upload (added tr tr') = 0
       \<and> added tr tr' = [EPrint MsgChecking,
                          EHasLayer destHub destRepo (BlobSum layer) (Inr True),
                          EPrint MsgExists]"
  using assms(1)
proof (cases rule: migrateLayer_added)
  case present
  then show ?thesis by (simp add: is_download_def is_upload_def)
next
  case (staged f evs removeErr)
  from moveLayerUsingFile_shape [OF staged(1)] assms(2) show ?thesis
    by (auto simp: staged(2) staging_def cleanup_def split: option.splits)
qed (use assms(2) in simp_all)

lemma after_d2_events:
  "after_d2 =
    staging hub_b ''app'' ''sha256:d2'' ''/tmp/docker-image042'' @
    [EDownloadLayer hub_a ''app'' ''sha256:d2'' None, ECopy ''/tmp/docker-image042'' None,
     EReaderClose, ESync ''/tmp/docker-image042'', EOpen ''/tmp/docker-image042'' None,
     EUploadLayer hub_b ''app'' ''sha256:d2'' ''/tmp/docker-image042'' None,
     EStreamClose ''/tmp/docker-image042''] @
    cleanup ''/tmp/docker-image042'' None"
  by (simp add: after_d2_def migrateLayer_def moveLayerUsingFile_def world_def uploaded_def
        staging_def cleanup_def Let_def)

theorem migrateLayer_present_is_skipped_witness:
  "EHasLayer hub_b ''app'' ''sha256:d2'' (Inr True)
     \<in> set (added after_d2
              (snd (migrateLayer (world []) hub_a hub_b ''app'' ''app''
                      \<lparr>BlobSum = ''sha256:d2''\<rparr> after_d2)))
   \<and> fst (migrateLayer (world []) hub_a hub_b ''app'' ''app'' \<lparr>BlobSum = ''sha256:d2''\<rparr> after_d2)
       = None
   \<and> calls is_upload
        (added after_d2
           (snd (migrateLayer (world []) hub_a hub_b ''app'' ''app''
                   \<lparr>BlobSum = ''sha256:d2''\<rparr> after_d2))) = 0"
proof -
  let ?run = "migrateLayer (world []) hub_a hub_b ''app'' ''app'' \<lparr>BlobSum = ''sha256:d2''\<rparr> after_d2"
  have run: "?run = (None, after_d2 @ [EPrint MsgChecking,
                                       EHasLayer hub_b ''app'' ''sha256:d2'' (Inr True),
                                       EPrint MsgExists])"
    by (simp add: after_d2_events migrateLayer_def world_def uploaded_def staging_def cleanup_def Let_def)
  have has: "EHasLayer hub_b ''app'' (BlobSum \<lparr>BlobSum = ''sha256:d2''\<rparr>) (Inr True)
               \<in> set (added after_d2 (snd ?run))"
    by (simp add: run)
  from migrateLayer_present_is_skipped [OF surjective_pairing has] has
  show ?thesis unfolding FSLayer.select_convs by blast
qed

subsection \<open>A layer the destination lacks\<close>




lemma run_missing:
  "migrateLayer (world []) hub_a hub_b ''app'' ''app'' \<lparr>BlobSum = ''sha256:missing''\<rparr> []
     = (Some (DownloadStartFailed ''blob unknown''),
        staging hub_b ''app'' ''sha256:missing'' ''/tmp/docker-image042'' @
        [EDownloadLayer hub_a ''app'' ''sha256:missing'' (Some ''blob unknown'')] @
        cleanup ''/tmp/docker-image042'' None)"
  by (simp add: migrateLayer_def moveLayerUsingFile_def world_def uploaded_def
        staging_def cleanup_def Let_def)


subsection \<open>A failed download\<close>

lemma moveLayerUsingFile_failure_never_uploads:
  assumes "moveLayerUsingFile env srcHub destHub srcRepo destRepo layer f tr = (err, tr')"
    and "EDownloadLayer h r d (Some c) \<in> set (added tr tr') \<or> ECopy g (Some c) \<in> set (added tr tr')
         \<or> EOpen g (Some c) \<in> set (added tr tr')"
  shows "calls is_upload (added tr tr') = 0 \<and> err \<noteq> None"
  using moveLayerUsingFile_cases [of env srcHub destHub srcRepo destRepo layer f tr] assms
  by (auto simp: is_upload_def)

text \<open>
  Claim C10. If \<open>DownloadLayer\<close> returns an error, or the copy into the temporary file fails,
  or reopening the file fails, then \<open>migrateLayer\<close> has made no \<open>UploadLayer\<close> call and no
  other call that changes a registry, and returns the error of the failing step.
\<close>
theorem download_failure_never_uploads:
  assumes "migrateLayer env srcHub destHub srcRepo destRepo layer tr = (err, tr')"
    and "EDownloadLayer h r d (Some c) \<in> set (added tr tr') \<or> ECopy f (Some c) \<in> set (added tr tr')
         \<or> EOpen f (Some c) \<in> set (added tr tr')"
  shows "calls is_upload (added tr tr') = 0 \<and> calls is_registry_write (added tr tr') = 0
       \<and> (err = Some (DownloadStartFailed c) \<or> err = Some (CopyFailed c)
            \<or> err = Some (OpenFailed c))"
  using assms(1)
proof (cases rule: migrateLayer_added)
  case (staged g evs removeErr)
  from moveLayerUsingFile_shape [OF staged(1)] assms(2) show ?thesis
    by (auto simp: staged(2) staging_def cleanup_def is_upload_def is_registry_write_def
             split: option.splits)
qed (use assms(2) in simp_all)

theorem download_failure_never_uploads_witness:
  "EDownloadLayer hub_a ''app'' ''sha256:missing'' (Some ''blob unknown'')
     \<in> set (added [] (snd (migrateLayer (world []) hub_a hub_b ''app'' ''app''
                             \<lparr>BlobSum = ''sha256:missing''\<rparr> [])))
   \<and> calls is_upload (added [] (snd (migrateLayer (world []) hub_a hub_b ''app'' ''app''
                                      \<lparr>BlobSum = ''sha256:missing''\<rparr> []))) = 0
   \<and> fst (migrateLayer (world []) hub_a hub_b ''app'' ''app''
            \<lparr>BlobSum = ''sha256:missing''\<rparr> []) = Some (DownloadStartFailed ''blob unknown'')"
proof -
  let ?run = "migrateLayer (world []) hub_a hub_b ''app'' ''app''
                \<lparr>BlobSum = ''sha256:missing''\<rparr> []"
  have failed: "EDownloadLayer hub_a ''app'' ''sha256:missing'' (Some ''blob unknown'')
                  \<in> set (added [] (snd ?run))"
    by (simp add: run_missing added_def staging_def)
  then have "EDownloadLayer hub_a ''app'' ''sha256:missing'' (Some ''blob unknown'')
               \<in> set (added [] (snd ?run))
             \<or> ECopy [] (Some ''blob unknown'') \<in> set (added [] (snd ?run))
             \<or> EOpen [] (Some ''blob unknown'') \<in> set (added [] (snd ?run))"
    by blast
  from download_failure_never_uploads [OF surjective_pairing this] failed
  show ?thesis by (simp add: run_missing)
qed

section \<open>Splitting\<close>

lemma Split_not_Nil [simp]: "Split s sep \<noteq> []"
  by (induction s) (auto split: list.splits)

lemma length_Split: "length (Split s sep) = Suc (length (filter (\<lambda>c. c = sep) s))"
  by (induction s) (auto split: list.splits)

lemma Split_without_separator: "sep \<notin> set s \<Longrightarrow> Split s sep = [s]"
  by (induction s) auto

lemma Split_first: "Split s sep ! 0 = takeWhile (\<lambda>c. c \<noteq> sep) s"
  by (induction s) (auto split: list.splits)

lemma Split_second:
  "sep \<in> set s \<Longrightarrow>
   Split s sep ! 1 = takeWhile (\<lambda>c. c \<noteq> sep) (tl (dropWhile (\<lambda>c. c \<noteq> sep) s))"
proof (induction s)
  case Nil
  then show ?case by simp
next
  case (Cons c cs)
  show ?case
  proof (cases "c = sep")
    case True
    then show ?thesis by (simp add: Split_first)
  next
    case False
    with Cons.prems have "sep \<in> set cs" by simp
    from Cons.IH [OF this] False show ?thesis
      by (cases "Split cs sep") auto
  qed
qed

lemma single_separator_tail:
  "length (filter (\<lambda>c. c = sep) s) = 1 \<Longrightarrow> sep \<notin> set (tl (dropWhile (\<lambda>c. c \<noteq> sep) s))"
proof (induction s)
  case Nil
  then show ?case by simp
next
  case (Cons c cs)
  show ?case
  proof (cases "c = sep")
    case True
    with Cons.prems have "filter (\<lambda>c. c = sep) cs = []" by simp
    then have "sep \<notin> set cs" by (auto simp: filter_empty_conv)
    with True show ?thesis by simp
  next
    case False
    with Cons.prems have "length (filter (\<lambda>c. c = sep) cs) = 1" by simp
    then have tail: "sep \<notin> set (tl (dropWhile (\<lambda>c. c \<noteq> sep) cs))"
      by (rule Cons.IH)
    from False have eq: "dropWhile (\<lambda>c. c \<noteq> sep) (c # cs) = dropWhile (\<lambda>c. c \<noteq> sep) cs"
      by simp
    from tail show ?thesis unfolding eq .
  qed
qed

lemma single_separator:
  assumes "length (filter (\<lambda>c. c = sep) s) = 1"
  shows "takeWhile (\<lambda>c. c \<noteq> sep) (tl (dropWhile (\<lambda>c. c \<noteq> sep) s))
     = tl (dropWhile (\<lambda>c. c \<noteq> sep) s)"
  using single_separator_tail [OF assms] by (auto simp: takeWhile_eq_all_conv)

lemma index_Ok: "index xs i = Ok x \<longleftrightarrow> i < length xs \<and> xs ! i = x"
  by (auto simp: index_def)

lemma index_Panic: "index xs i = Panic p \<longleftrightarrow> length xs \<le> i \<and> p = IndexOutOfRange"
  by (auto simp: index_def)

section \<open>Connecting\<close>

lemma connectToRegistry_unmanaged:
  assumes "ecr_find (RegistryURL args) = None"
    and "connectToRegistry env args tr = (res, tr')"
  shows
   "(\<exists>c. res = Err (NewRegistryFailed (RegistryURL args) c)
        \<and> added tr tr' = [ERegistryNew (RegistryURL args) [] [] (Some c)])
  \<or> (\<exists>p. res = (case p of Some c \<Rightarrow> Err (PingFailed (RegistryURL args) c)
                         | None \<Rightarrow> Ok \<lparr>URL = RegistryURL args, Username = [], Password = []\<rparr>)
        \<and> added tr tr' = [ERegistryNew (RegistryURL args) [] [] None,
                           EPing \<lparr>URL = RegistryURL args, Username = [], Password = []\<rparr> p])"
  using assms
  by (auto simp: connectToRegistry_def Let_def split: option.splits)

lemma unmanaged_new:
  assumes "ecr_find (RegistryURL args) = None"
    and "connectToRegistry env args tr = (res, tr')"
    and "ERegistryNew url u p n \<in> set (added tr tr')"
  shows "url = RegistryURL args \<and> u = [] \<and> p = []"
  using connectToRegistry_unmanaged [OF assms(1,2)] assms(3) by auto

lemma connectToRegistry_managed_new:
  assumes "ecr_find (RegistryURL args) = Some (registryId, region)"
    and "connectToRegistry env args tr = (res, tr')"
    and "ERegistryNew url u p n \<in> set (added tr tr')"
  shows "\<exists>auth rest token decoded.
           EGetAuthorizationToken region registryId (Inr (Some auth # rest)) \<in> set (added tr tr')
         \<and> AuthorizationToken auth = Some token
         \<and> DecodeString env token = Inr decoded
         \<and> ProxyEndpoint auth = Some url
         \<and> 1 < length (Split decoded CHR '':'')
         \<and> u = Split decoded CHR '':'' ! 0
         \<and> p = Split decoded CHR '':'' ! 1"
  using assms
  by (auto simp: connectToRegistry_def Let_def and_then_def index_def deref_def neq_Nil_conv
           split: option.splits sum.splits result.splits if_splits)

lemma connectToRegistry_token_without_colon:
  assumes "ecr_find (RegistryURL args) = Some (registryId, region)"
    and "NewSession env tr region = None"
    and "GetAuthorizationToken env (tr @ [ENewSession region None]) region registryId
           = Inr (Some auth # rest)"
    and "AuthorizationToken auth = Some token"
    and "DecodeString env token = Inr decoded"
    and "ProxyEndpoint auth = Some url"
    and "CHR '':'' \<notin> set decoded"
  shows "connectToRegistry env args tr
           = (Panic IndexOutOfRange,
              tr @ [ENewSession region None,
                    EGetAuthorizationToken region registryId (Inr (Some auth # rest))])"
  using assms
  by (simp add: connectToRegistry_def Let_def and_then_def index_def deref_def
        Split_without_separator)

lemma connectToRegistry_events:
  assumes "connectToRegistry env args tr = (res, tr')"
  shows "\<exists>evs. tr' = tr @ evs \<and> list_all connect_event evs
             \<and> (\<forall>hub. res = Ok hub \<longrightarrow> evs \<noteq> [] \<and> last evs = EPing hub None)
             \<and> (\<forall>e. res = Err e \<and> class_of e = ConnectionError \<longrightarrow>
                   (\<exists>url u p c. evs \<noteq> [] \<and> last evs = ERegistryNew url u p (Some c))
                 \<or> (\<exists>hub c. evs \<noteq> [] \<and> last evs = EPing hub (Some c)))"
  using assms
  by (auto simp: connectToRegistry_def Let_def connect_event_def class_of_def
                 and_then_def index_def deref_def
           split: option.splits sum.splits result.splits prod.splits if_splits)

subsection \<open>The examples evaluated\<close>

lemma ecr_find_ecr_args:
  "ecr_find (RegistryURL ecr_args) = Some (''123456789012'', ''us-east-1'')"
  by (simp add: ecr_args_def ecr_match_here_def is_digit_def is_region_char_def)

lemma ecr_find_plain_args: "ecr_find (RegistryURL plain_args) = None"
  by (simp add: plain_args_def ecr_match_here_def is_digit_def is_region_char_def)

lemma ecr_find_examples:
  "ecr_find ''https://a.example.com'' = None"
  "ecr_find ''https://b.example.com'' = None"
  "ecr_find ''https://down.example.com'' = None"
  "ecr_find ''https://123456789012.dkr.ecr.us-east-1.amazonaws.com''
     = Some (''123456789012'', ''us-east-1'')"
  by (simp_all add: ecr_match_here_def is_digit_def is_region_char_def)

lemma decode_examples:
  "StdEncoding_DecodeString ''QVdTOnNlY3JldA=='' = Inr ''AWS:secret''"
  "StdEncoding_DecodeString ''QVdTOnBhOnNz'' = Inr ''AWS:pa:ss''"
  "StdEncoding_DecodeString ''bm9jb2xvbg=='' = Inr ''nocolon''"
  "StdEncoding_DecodeString ''QVdTOg=='' = Inr ''AWS:''"
  by (simp_all add: StdEncoding_DecodeString_def quantum_def b64_value_def byte_def)

lemma connect_ecr:
  "connectToRegistry (world token) ecr_args [] =
    (case StdEncoding_DecodeString token of
       Inl c \<Rightarrow> (Err (DecodeFailed ''123456789012'' c),
                 [ENewSession ''us-east-1'' None,
                  EGetAuthorizationToken ''us-east-1'' ''123456789012''
                    (Inr [Some \<lparr>AuthorizationToken = Some token,
                                 ProxyEndpoint = Some ''https://proxy.example.com''\<rparr>])])
     | Inr decoded \<Rightarrow>
        (if 1 < length (Split decoded CHR '':'') then
           (Ok \<lparr>URL = ''https://proxy.example.com'', Username = Split decoded CHR '':'' ! 0,
                 Password = Split decoded CHR '':'' ! 1\<rparr>,
            [ENewSession ''us-east-1'' None,
             EGetAuthorizationToken ''us-east-1'' ''123456789012''
               (Inr [Some \<lparr>AuthorizationToken = Some token,
                            ProxyEndpoint = Some ''https://proxy.example.com''\<rparr>]),
             ERegistryNew ''https://proxy.example.com'' (Split decoded CHR '':'' ! 0)
               (Split decoded CHR '':'' ! 1) None,
             EPing \<lparr>URL = ''https://proxy.example.com'', Username = Split decoded CHR '':'' ! 0,
                     Password = Split decoded CHR '':'' ! 1\<rparr> None])
         else
           (Panic IndexOutOfRange,
            [ENewSession ''us-east-1'' None,
             EGetAuthorizationToken ''us-east-1'' ''123456789012''
               (Inr [Some \<lparr>AuthorizationToken = Some token,
                            ProxyEndpoint = Some ''https://proxy.example.com''\<rparr>])])))"
  by (simp add: connectToRegistry_def ecr_find_ecr_args world_def Let_def and_then_def index_def
        deref_def split: sum.splits)

lemma connect_plain:
  assumes "ecr_find url = None"
  shows "connectToRegistry (world token) \<lparr>RegistryURL = url, Repository = r, Tag_arg = t\<rparr> tr =
          (if url = ''https://down.example.com''
           then (Err (PingFailed url ''connection refused''),
                 tr @ [ERegistryNew url [] [] None,
                       EPing \<lparr>URL = url, Username = [], Password = []\<rparr>
                         (Some ''connection refused'')])
           else (Ok \<lparr>URL = url, Username = [], Password = []\<rparr>,
                 tr @ [ERegistryNew url [] [] None,
                       EPing \<lparr>URL = url, Username = [], Password = []\<rparr> None]))"
  using assms by (simp add: connectToRegistry_def world_def Let_def)

subsection \<open>A URL that is not of the ECR form\<close>

text \<open>
  Claim C6. For a URL in which the ECR pattern does not occur, \<open>connectToRegistry\<close> makes
  no call to the AWS SDK, builds the client first, from the URL as given with empty
  username and empty password, and a successful connection is a handle on exactly these.
\<close>
theorem unmanaged_url_is_used_as_given:
  assumes "ecr_find (RegistryURL args) = None"
    and "connectToRegistry env args tr = (res, tr')"
  shows "calls is_credential_exchange (added tr tr') = 0
       \<and> (\<exists>n rest. added tr tr' = ERegistryNew (RegistryURL args) [] [] n # rest)
       \<and> (\<forall>url u p n. ERegistryNew url u p n \<in> set (added tr tr')
             \<longrightarrow> url = RegistryURL args \<and> u = [] \<and> p = [])
       \<and> (\<forall>hub. res = Ok hub
             \<longrightarrow> hub = \<lparr>URL = RegistryURL args, Username = [], Password = []\<rparr>)"
  using connectToRegistry_unmanaged [OF assms]
  by (auto simp: is_credential_exchange_def split: option.splits)

theorem unmanaged_url_is_used_as_given_witness:
  "ecr_find (RegistryURL plain_args) = None
   \<and> calls is_credential_exchange (snd (connectToRegistry (world []) plain_args [])) = 0
   \<and> fst (connectToRegistry (world []) plain_args [])
       = Ok \<lparr>URL = ''https://a.example.com'', Username = [], Password = []\<rparr>"
proof -
  have run: "connectToRegistry (world []) plain_args [] =
               (Ok \<lparr>URL = ''https://a.example.com'', Username = [], Password = []\<rparr>,
                [ERegistryNew ''https://a.example.com'' [] [] None,
                 EPing \<lparr>URL = ''https://a.example.com'', Username = [], Password = []\<rparr> None])"
    using ecr_find_plain_args
    by (simp add: connectToRegistry_def world_def Let_def plain_args_def)
  from unmanaged_url_is_used_as_given [OF ecr_find_plain_args surjective_pairing]
  have "calls is_credential_exchange (added [] (snd (connectToRegistry (world []) plain_args []))) = 0"
    by blast
  with ecr_find_plain_args run show ?thesis by (simp add: added_def)
qed

subsection \<open>A URL of the ECR form\<close>

text \<open>What \<open>registry.New\<close> is given: the proxy endpoint, and the first two fields of the
  decoded token. The first field is the text before the first colon; the second field
  ends at the second colon.\<close>

lemma managed_credentials:
  assumes "ecr_find (RegistryURL args) = Some (registryId, region)"
    and "connectToRegistry env args tr = (res, tr')"
    and "ERegistryNew url u p n \<in> set (added tr tr')"
  shows "\<exists>auth rest token decoded.
           EGetAuthorizationToken region registryId (Inr (Some auth # rest)) \<in> set (added tr tr')
         \<and> AuthorizationToken auth = Some token
         \<and> DecodeString env token = Inr decoded
         \<and> ProxyEndpoint auth = Some url
         \<and> CHR '':'' \<in> set decoded
         \<and> u = spec_username decoded
         \<and> p = takeWhile (\<lambda>c. c \<noteq> CHR '':'') (spec_password decoded)
         \<and> (length (filter (\<lambda>c. c = CHR '':'') decoded) = 1 \<longrightarrow> p = spec_password decoded)"
proof -
  from connectToRegistry_managed_new [OF assms]
  obtain auth rest token decoded where
    *: "EGetAuthorizationToken region registryId (Inr (Some auth # rest)) \<in> set (added tr tr')"
       "AuthorizationToken auth = Some token" "DecodeString env token = Inr decoded"
       "ProxyEndpoint auth = Some url" "1 < length (Split decoded CHR '':'')"
       "u = Split decoded CHR '':'' ! 0" "p = Split decoded CHR '':'' ! 1"
    by blast
  from *(5) have colon: "CHR '':'' \<in> set decoded"
    by (auto simp: length_Split filter_empty_conv)
  have u: "u = spec_username decoded"
    by (simp add: *(6) Split_first spec_username_def)
  have p: "p = takeWhile (\<lambda>c. c \<noteq> CHR '':'') (spec_password decoded)"
    using Split_second [OF colon] by (simp add: *(7) spec_password_def)
  have one: "length (filter (\<lambda>c. c = CHR '':'') decoded) = 1 \<longrightarrow> p = spec_password decoded"
  proof
    assume h: "length (filter (\<lambda>c. c = CHR '':'') decoded) = 1"
    from single_separator [OF h]
    have "takeWhile (\<lambda>c. c \<noteq> CHR '':'') (spec_password decoded) = spec_password decoded"
      unfolding spec_password_def .
    with p show "p = spec_password decoded" by (simp only:)
  qed
  from *(1-4) colon u p one show ?thesis
    by (intro exI [of _ auth] exI [of _ rest] exI [of _ token] exI [of _ decoded] conjI)
qed

text \<open>
  Claim C4, at a token whose password holds a colon. The token \<open>QVdTOnBhOnNz\<close> decodes to
  \<open>AWS:pa:ss\<close>. The text after the first colon is \<open>pa:ss\<close>; the client is built with the
  password \<open>pa\<close>, the second of the fields that \<open>strings.Split\<close> returns. The username and
  the proxy endpoint are as the claim says.
\<close>
theorem password_with_colon_is_cut:
  "ecr_find (RegistryURL ecr_args) = Some (''123456789012'', ''us-east-1'')
   \<and> DecodeString (world ''QVdTOnBhOnNz'') ''QVdTOnBhOnNz'' = Inr ''AWS:pa:ss''
   \<and> spec_username ''AWS:pa:ss'' = ''AWS''
   \<and> spec_password ''AWS:pa:ss'' = ''pa:ss''
   \<and> fst (connectToRegistry (world ''QVdTOnBhOnNz'') ecr_args [])
        = Ok \<lparr>URL = ''https://proxy.example.com'', Username = ''AWS'', Password = ''pa''\<rparr>
   \<and> ERegistryNew ''https://proxy.example.com'' ''AWS'' ''pa'' None
        \<in> set (snd (connectToRegistry (world ''QVdTOnBhOnNz'') ecr_args []))"
  by (simp add: ecr_find_ecr_args connect_ecr decode_examples spec_username_def spec_password_def)
    (simp add: world_def decode_examples)

text \<open>
  Claim C5, at a token without a colon. The token \<open>bm9jb2xvbg==\<close> decodes to \<open>nocolon\<close>.
  \<open>connectToRegistry\<close> does not return an error: reading the second field panics, after the
  session and the token request and before any client is built.
\<close>
theorem token_without_colon_panics:
  "ecr_find (RegistryURL ecr_args) = Some (''123456789012'', ''us-east-1'')
   \<and> DecodeString (world ''bm9jb2xvbg=='') ''bm9jb2xvbg=='' = Inr ''nocolon''
   \<and> fst (connectToRegistry (world ''bm9jb2xvbg=='') ecr_args []) = Panic IndexOutOfRange
   \<and> calls is_network (snd (connectToRegistry (world ''bm9jb2xvbg=='') ecr_args [])) = 2"
  by (simp add: ecr_find_ecr_args connect_ecr decode_examples is_network_def)
    (simp add: world_def decode_examples)

subsection \<open>The credentials handed to the client\<close>

text \<open>
  Claim C9, as the code has it. Whenever \<open>connectToRegistry\<close> builds a client: for a URL
  without the ECR pattern the username and the password are both empty; for a URL with
  it and a decoded token that holds exactly one colon, the username is the text before the
  colon and the password the text after it, taken as they are, so the two are both empty
  or both set exactly when the two parts of the token are. Nothing checks that they are.
\<close>
theorem credentials_follow_the_token:
  assumes "connectToRegistry env args tr = (res, tr')"
    and "ERegistryNew url u p n \<in> set (added tr tr')"
  shows "(ecr_find (RegistryURL args) = None \<longrightarrow> u = [] \<and> p = [])
       \<and> (ecr_find (RegistryURL args) \<noteq> None \<longrightarrow>
            (\<exists>registryId region auth rest token decoded.
               EGetAuthorizationToken region registryId (Inr (Some auth # rest))
                 \<in> set (added tr tr')
             \<and> AuthorizationToken auth = Some token
             \<and> DecodeString env token = Inr decoded
             \<and> CHR '':'' \<in> set decoded
             \<and> (length (filter (\<lambda>c. c = CHR '':'') decoded) = 1 \<longrightarrow>
                   u = spec_username decoded \<and> p = spec_password decoded
                 \<and> (credentials_paired (ERegistryNew url u p n)
                      \<longleftrightarrow> (spec_username decoded = [] \<longleftrightarrow> spec_password decoded = [])))))"
proof (cases "ecr_find (RegistryURL args)")
  case None
  from unmanaged_new [OF None assms] None show ?thesis by simp
next
  case (Some m)
  obtain registryId region where m: "m = (registryId, region)" by (cases m)
  from managed_credentials [OF Some [unfolded m] assms]
  obtain auth rest token decoded where
    *: "EGetAuthorizationToken region registryId (Inr (Some auth # rest)) \<in> set (added tr tr')"
       "AuthorizationToken auth = Some token" "DecodeString env token = Inr decoded"
       "CHR '':'' \<in> set decoded" "u = spec_username decoded"
       "length (filter (\<lambda>c. c = CHR '':'') decoded) = 1 \<longrightarrow> p = spec_password decoded"
    by blast
  have "length (filter (\<lambda>c. c = CHR '':'') decoded) = 1 \<longrightarrow>
          u = spec_username decoded \<and> p = spec_password decoded
        \<and> (credentials_paired (ERegistryNew url u p n)
             \<longleftrightarrow> (spec_username decoded = [] \<longleftrightarrow> spec_password decoded = []))"
    using *(5,6) by (simp add: credentials_paired_def)
  with *(1-4) have "\<exists>registryId region auth rest token decoded.
               EGetAuthorizationToken region registryId (Inr (Some auth # rest))
                 \<in> set (added tr tr')
             \<and> AuthorizationToken auth = Some token
             \<and> DecodeString env token = Inr decoded
             \<and> CHR '':'' \<in> set decoded
             \<and> (length (filter (\<lambda>c. c = CHR '':'') decoded) = 1 \<longrightarrow>
                   u = spec_username decoded \<and> p = spec_password decoded
                 \<and> (credentials_paired (ERegistryNew url u p n)
                      \<longleftrightarrow> (spec_username decoded = [] \<longleftrightarrow> spec_password decoded = [])))"
    by blast
  with Some show ?thesis by simp
qed

theorem credentials_follow_the_token_witness:
  "ERegistryNew ''https://proxy.example.com'' ''AWS'' ''secret'' None
     \<in> set (added [] (snd (connectToRegistry (world ''QVdTOnNlY3JldA=='') ecr_args [])))
   \<and> ecr_find (RegistryURL ecr_args) \<noteq> None
   \<and> DecodeString (world ''QVdTOnNlY3JldA=='') ''QVdTOnNlY3JldA=='' = Inr ''AWS:secret''
   \<and> length (filter (\<lambda>c. c = CHR '':'') ''AWS:secret'') = 1
   \<and> spec_username ''AWS:secret'' = ''AWS''
   \<and> spec_password ''AWS:secret'' = ''secret''
   \<and> credentials_paired (ERegistryNew ''https://proxy.example.com'' ''AWS'' ''secret'' None)"
proof -
  have new: "ERegistryNew ''https://proxy.example.com'' ''AWS'' ''secret'' None
     \<in> set (added [] (snd (connectToRegistry (world ''QVdTOnNlY3JldA=='') ecr_args [])))"
    by (simp add: connect_ecr decode_examples added_def)
  from credentials_follow_the_token [OF surjective_pairing new] new
  show ?thesis
    by (simp add: ecr_find_ecr_args world_def decode_examples spec_username_def
          spec_password_def credentials_paired_def)
qed

text \<open>
  Claim C9 as stated (username and password both set or both empty) fails for the token
  \<open>QVdTOg==\<close>, which decodes to \<open>AWS:\<close>: the client is built with the username \<open>AWS\<close> and
  an empty password.
\<close>
theorem credentials_paired_counterexample:
  "ERegistryNew ''https://proxy.example.com'' ''AWS'' [] None
     \<in> set (snd (connectToRegistry (world ''QVdTOg=='') ecr_args []))
   \<and> \<not> list_all credentials_paired (snd (connectToRegistry (world ''QVdTOg=='') ecr_args []))"
  by (simp add: connect_ecr decode_examples credentials_paired_def)

section \<open>The whole migration\<close>

text \<open>The ways a run of \<open>main\<close> can go.\<close>

lemma main_cases:
  fixes env fl
  defines "src \<equiv> srcArgs fl" and "dest \<equiv> destArgs fl"
  obtains
    (no_src_repo) "Repository src = []"
      "main env fl = \<lparr>exitCode = - 1, trace = [EPrint MsgSrcRepoRequired], heap = []\<rparr>"
  | (no_dest_repo) "Repository dest = []"
      "main env fl = \<lparr>exitCode = - 1, trace = [EPrint MsgDestRepoRequired], heap = []\<rparr>"
  | (src_panic) p tr1 where
      "connectToRegistry env src [] = (Panic p, tr1)"
      "main env fl = \<lparr>exitCode = 0, trace = tr1, heap = []\<rparr>"
  | (src_failed) e tr1 where
      "connectToRegistry env src [] = (Err e, tr1)"
      "main env fl = \<lparr>exitCode = - 1, trace = tr1 @ [EPrint (MsgSrcConnFailed e)], heap = []\<rparr>"
  | (dest_panic) srcHub tr1 p tr2 where
      "connectToRegistry env src [] = (Ok srcHub, tr1)"
      "connectToRegistry env dest tr1 = (Panic p, tr2)"
      "main env fl = \<lparr>exitCode = 0, trace = tr2, heap = []\<rparr>"
  | (dest_failed) srcHub tr1 e tr2 where
      "connectToRegistry env src [] = (Ok srcHub, tr1)"
      "connectToRegistry env dest tr1 = (Err e, tr2)"
      "main env fl = \<lparr>exitCode = - 1, trace = tr2 @ [EPrint (MsgDestConnFailed e)], heap = []\<rparr>"
  | (manifest_failed) srcHub tr1 destHub tr2 c where
      "connectToRegistry env src [] = (Ok srcHub, tr1)"
      "connectToRegistry env dest tr1 = (Ok destHub, tr2)"
      "main env fl =
         \<lparr>exitCode = - 1,
          trace = tr2 @ [EManifest srcHub (Repository src) (Tag_arg src) (Inl c),
                         EPrint (MsgManifestFailed (URL srcHub) (Repository src) (Tag_arg src) c)],
          heap = []\<rparr>"
  | (layer_failed) srcHub tr1 destHub tr2 fetched e tr4 where
      "connectToRegistry env src [] = (Ok srcHub, tr1)"
      "connectToRegistry env dest tr1 = (Ok destHub, tr2)"
      "migrateLayers env srcHub destHub (Repository src) (Repository dest)
         (FSLayers (Manifest fetched))
         (tr2 @ [EManifest srcHub (Repository src) (Tag_arg src) (Inr fetched)]) = (Some e, tr4)"
      "main env fl =
         \<lparr>exitCode = - 1, trace = tr4 @ [EPrint (MsgLayerFailed e)], heap = [fetched]\<rparr>"
  | (published) srcHub tr1 destHub tr2 fetched tr4 answer where
      "connectToRegistry env src [] = (Ok srcHub, tr1)"
      "connectToRegistry env dest tr1 = (Ok destHub, tr2)"
      "migrateLayers env srcHub destHub (Repository src) (Repository dest)
         (FSLayers (Manifest fetched))
         (tr2 @ [EManifest srcHub (Repository src) (Tag_arg src) (Inr fetched)]) = (None, tr4)"
      "main env fl =
         \<lparr>exitCode = (case answer of None \<Rightarrow> 0 | Some c \<Rightarrow> - 1),
          trace = tr4 @
            EPutManifest destHub (Repository dest) (Tag_arg dest)
              \<lparr>Manifest = (Manifest fetched)\<lparr>Name := Repository dest\<rparr>, Raw = []\<rparr> answer #
            (case answer of None \<Rightarrow> []
             | Some c \<Rightarrow> [EPrint (MsgPutFailed (URL destHub) (Repository dest) (Tag_arg dest) c)]),
          heap = [fetched, \<lparr>Manifest = (Manifest fetched)\<lparr>Name := Repository dest\<rparr>, Raw = []\<rparr>]\<rparr>"
proof (cases "Repository src = []")
  case True
  then show thesis by (intro no_src_repo) (simp_all add: main_def src_def Let_def)
next
  case src_ok: False
  show thesis
  proof (cases "Repository dest = []")
    case True
    with src_ok show thesis by (intro no_dest_repo) (simp_all add: main_def src_def dest_def Let_def)
  next
    case dest_ok: False
    obtain r1 tr1 where c1: "connectToRegistry env src [] = (r1, tr1)"
      by (cases "connectToRegistry env src []")
    show thesis
    proof (cases r1)
      case (Panic p)
      with src_ok dest_ok c1 show thesis
        by (intro src_panic [of p tr1]) (simp_all add: main_def src_def dest_def Let_def)
    next
      case (Err e)
      with src_ok dest_ok c1 show thesis
        by (intro src_failed [of e tr1]) (simp_all add: main_def src_def dest_def Let_def)
    next
      case (Ok srcHub)
      obtain r2 tr2 where c2: "connectToRegistry env dest tr1 = (r2, tr2)"
        by (cases "connectToRegistry env dest tr1")
      show thesis
      proof (cases r2)
        case (Panic p)
        with src_ok dest_ok c1 c2 Ok show thesis
          by (intro dest_panic [of srcHub tr1 p tr2]) (simp_all add: main_def src_def dest_def Let_def)
      next
        case (Err e)
        with src_ok dest_ok c1 c2 Ok show thesis
          by (intro dest_failed [of srcHub tr1 e tr2]) (simp_all add: main_def src_def dest_def Let_def)
      next
        case destOk: (Ok destHub)
        let ?m = "GetManifest env tr2 srcHub (Repository src) (Tag_arg src)"
        show thesis
        proof (cases ?m)
          case (Inl c)
          with src_ok dest_ok c1 c2 Ok destOk show thesis
            by (intro manifest_failed [of srcHub tr1 destHub tr2 c])
               (simp_all add: main_def src_def dest_def Let_def)
        next
          case (Inr fetched)
          let ?tr3 = "tr2 @ [EManifest srcHub (Repository src) (Tag_arg src) (Inr fetched)]"
          obtain err tr4 where
            ml: "migrateLayers env srcHub destHub (Repository src) (Repository dest)
                   (FSLayers (Manifest fetched)) ?tr3 = (err, tr4)"
            by (cases "migrateLayers env srcHub destHub (Repository src) (Repository dest)
                   (FSLayers (Manifest fetched)) ?tr3")
          show thesis
          proof (cases err)
            case (Some e)
            with src_ok dest_ok c1 c2 Ok destOk Inr ml show thesis
              by (intro layer_failed [of srcHub tr1 destHub tr2 fetched e tr4])
                 (simp_all add: main_def src_def dest_def Let_def alloc_def)
          next
            case None
            let ?published = "\<lparr>Manifest = (Manifest fetched)\<lparr>Name := Repository dest\<rparr>, Raw = []\<rparr>"
            let ?answer = "PutManifest env tr4 destHub (Repository dest) (Tag_arg dest) ?published"
            from None src_ok dest_ok c1 c2 Ok destOk Inr ml show thesis
              by (intro published [of srcHub tr1 destHub tr2 fetched tr4 ?answer])
                 (simp_all add: main_def src_def dest_def Let_def alloc_def split: option.splits)
          qed
        qed
      qed
    qed
  qed
qed

subsection \<open>The example runs\<close>

lemma example_args:
  "srcArgs copy_flags
     = \<lparr>RegistryURL = ''https://a.example.com'', Repository = ''team/app'', Tag_arg = ''latest''\<rparr>"
  "destArgs copy_flags
     = \<lparr>RegistryURL = ''https://b.example.com'', Repository = ''app'', Tag_arg = ''v1''\<rparr>"
  "srcArgs down_flags = srcArgs copy_flags"
  "destArgs down_flags
     = \<lparr>RegistryURL = ''https://down.example.com'', Repository = ''app'', Tag_arg = ''v1''\<rparr>"
  "srcArgs ecr_flags = srcArgs copy_flags"
  "destArgs ecr_flags = ecr_args\<lparr>Tag_arg := ''v1''\<rparr>"
  by (simp_all add: srcArgs_def destArgs_def with_fallback_def copy_flags_def down_flags_def
        ecr_flags_def ecr_args_def Let_def)

lemma run_down:
  "main (world []) down_flags =
     \<lparr>exitCode = - 1,
      trace = [ERegistryNew ''https://a.example.com'' [] [] None, EPing hub_a None,
               ERegistryNew ''https://down.example.com'' [] [] None,
               EPing \<lparr>URL = ''https://down.example.com'', Username = [], Password = []\<rparr>
                 (Some ''connection refused''),
               EPrint (MsgDestConnFailed
                         (PingFailed ''https://down.example.com'' ''connection refused''))],
      heap = []\<rparr>"
  by (simp add: main_def example_args connect_plain [OF ecr_find_examples(1)]
        connect_plain [OF ecr_find_examples(3)] hub_a_def Let_def)

text \<open>The example run: the destination has \<open>d1\<close>, so only \<open>d2\<close> is transferred, and the
  manifest is published with both layers in the order of the source.\<close>

lemma run_copy:
  "main (world []) copy_flags =
     \<lparr>exitCode = 0,
      trace =
        [ERegistryNew ''https://a.example.com'' [] [] None, EPing hub_a None,
         ERegistryNew ''https://b.example.com'' [] [] None, EPing hub_b None,
         EManifest hub_a ''team/app'' ''latest'' (Inr (example_image ''team/app'' ''latest'')),
         EPrint MsgChecking, EHasLayer hub_b ''app'' ''sha256:d1'' (Inr True), EPrint MsgExists] @
        staging hub_b ''app'' ''sha256:d2'' ''/tmp/docker-image042'' @
        [EDownloadLayer hub_a ''team/app'' ''sha256:d2'' None, ECopy ''/tmp/docker-image042'' None,
         EReaderClose, ESync ''/tmp/docker-image042'', EOpen ''/tmp/docker-image042'' None,
         EUploadLayer hub_b ''app'' ''sha256:d2'' ''/tmp/docker-image042'' None,
         EStreamClose ''/tmp/docker-image042''] @
        cleanup ''/tmp/docker-image042'' None @
        [EPutManifest hub_b ''app'' ''v1'' published_image None],
      heap = [example_image ''team/app'' ''latest'', published_image]\<rparr>"
proof -
  let ?connected = "[ERegistryNew ''https://a.example.com'' [] [] None, EPing hub_a None,
                     ERegistryNew ''https://b.example.com'' [] [] None, EPing hub_b None]"
  let ?tr3 = "[ERegistryNew ''https://a.example.com'' [] [] None, EPing hub_a None,
               ERegistryNew ''https://b.example.com'' [] [] None, EPing hub_b None,
               EManifest hub_a ''team/app'' ''latest'' (Inr (example_image ''team/app'' ''latest''))]"
  have src: "connectToRegistry (world []) (srcArgs copy_flags) []
               = (Ok hub_a, [ERegistryNew ''https://a.example.com'' [] [] None, EPing hub_a None])"
    by (simp add: example_args connect_plain [OF ecr_find_examples(1)] hub_a_def)
  have dest: "connectToRegistry (world []) (destArgs copy_flags)
                [ERegistryNew ''https://a.example.com'' [] [] None, EPing hub_a None]
               = (Ok hub_b, ?connected)"
    by (simp add: example_args connect_plain [OF ecr_find_examples(2)] hub_b_def)
  have manifest: "GetManifest (world []) tr hub r t = Inr (example_image r t)" for tr hub r t
    by (simp add: world_def)
  have put: "PutManifest (world []) tr hub r t m = None" for tr hub r t m
    by (simp add: world_def)
  have layers: "migrateLayers (world []) hub_a hub_b ''team/app'' ''app''
                  (FSLayers (Manifest (example_image ''team/app'' ''latest''))) ?tr3
                = (None,
                   ?tr3 @
                   [EPrint MsgChecking, EHasLayer hub_b ''app'' ''sha256:d1'' (Inr True),
                    EPrint MsgExists] @
                   staging hub_b ''app'' ''sha256:d2'' ''/tmp/docker-image042'' @
                   [EDownloadLayer hub_a ''team/app'' ''sha256:d2'' None,
                    ECopy ''/tmp/docker-image042'' None, EReaderClose,
                    ESync ''/tmp/docker-image042'', EOpen ''/tmp/docker-image042'' None,
                    EUploadLayer hub_b ''app'' ''sha256:d2'' ''/tmp/docker-image042'' None,
                    EStreamClose ''/tmp/docker-image042''] @
                   cleanup ''/tmp/docker-image042'' None)"
    by (simp add: example_image_def migrateLayer_def moveLayerUsingFile_def staging_def cleanup_def
          world_def uploaded_def Let_def)
  have names: "Repository (srcArgs copy_flags) = ''team/app''"
    "Tag_arg (srcArgs copy_flags) = ''latest''" "Repository (destArgs copy_flags) = ''app''"
    "Tag_arg (destArgs copy_flags) = ''v1''"
    by (simp_all add: example_args)
  have renamed: "\<lparr>Manifest = (Manifest (example_image ''team/app'' ''latest''))\<lparr>Name := ''app''\<rparr>, Raw = []\<rparr>
                   = published_image"
    by (simp add: example_image_def published_image_def)
  show ?thesis
    by (simp add: main_def src dest names manifest layers put renamed alloc_def Let_def)
qed

text \<open>In the example run exactly one layer is transferred.\<close>

lemma run_copy_transfers_one_layer:
  "calls is_download (trace (main (world []) copy_flags)) = 1
   \<and> calls is_upload (trace (main (world []) copy_flags)) = 1"
  by (simp add: run_copy is_download_def is_upload_def staging_def cleanup_def)

text \<open>A panic while connecting ends the process with exit code 0 and no message.\<close>

lemma run_ecr_token_without_colon:
  "main (world ''bm9jb2xvbg=='') ecr_flags =
     \<lparr>exitCode = 0,
      trace = [ERegistryNew ''https://a.example.com'' [] [] None, EPing hub_a None,
               ENewSession ''us-east-1'' None,
               EGetAuthorizationToken ''us-east-1'' ''123456789012''
                 (Inr [Some \<lparr>AuthorizationToken = Some ''bm9jb2xvbg=='',
                              ProxyEndpoint = Some ''https://proxy.example.com''\<rparr>])],
      heap = []\<rparr>"
proof -
  let ?env = "world ''bm9jb2xvbg==''"
  let ?auth = "\<lparr>AuthorizationToken = Some ''bm9jb2xvbg=='',
                ProxyEndpoint = Some ''https://proxy.example.com''\<rparr>"
  have managed: "ecr_find (RegistryURL (ecr_args\<lparr>Tag_arg := ''v1''\<rparr>))
                   = Some (''123456789012'', ''us-east-1'')"
    using ecr_find_ecr_args by simp
  have session: "NewSession ?env tr ''us-east-1'' = None" for tr
    by (simp add: world_def)
  have token: "GetAuthorizationToken ?env (tr @ [ENewSession ''us-east-1'' None]) ''us-east-1''
                 ''123456789012'' = Inr (Some ?auth # [])" for tr
    by (simp add: world_def)
  have decoded: "DecodeString ?env ''bm9jb2xvbg=='' = Inr ''nocolon''"
    by (simp add: world_def decode_examples)
  have dest: "connectToRegistry ?env (ecr_args\<lparr>Tag_arg := ''v1''\<rparr>) tr =
          (Panic IndexOutOfRange,
           tr @ [ENewSession ''us-east-1'' None,
                 EGetAuthorizationToken ''us-east-1'' ''123456789012'' (Inr [Some ?auth])])" for tr
    by (rule connectToRegistry_token_without_colon [OF managed session token _ decoded]) simp_all
  have repo: "Repository ecr_args = ''app''"
    by (simp add: ecr_args_def)
  show ?thesis
    by (simp add: main_def example_args connect_plain [OF ecr_find_examples(1)] dest hub_a_def
          repo Let_def)
qed

subsection \<open>Missing repository names\<close>

lemma effective_repository:
  "Repository (srcArgs fl) = (if src_repo fl = [] then repo fl else src_repo fl)"
  "Repository (destArgs fl) = (if dest_repo fl = [] then repo fl else dest_repo fl)"
  by (simp_all add: srcArgs_def destArgs_def with_fallback_def Let_def)

text \<open>
  Claim C7. If the repository name of the source or of the destination is empty after the
  \<open>--repo\<close> fallback, \<open>main\<close> ends with a nonzero exit code, and all it has done is print the
  message that names the missing repository: no call to a registry or to AWS is made.
\<close>
theorem missing_repository_stops_before_network:
  assumes "(src_repo fl = [] \<and> repo fl = []) \<or> (dest_repo fl = [] \<and> repo fl = [])"
  shows "exitCode (main env fl) \<noteq> 0
       \<and> calls is_network (trace (main env fl)) = 0
       \<and> (trace (main env fl) = [EPrint MsgSrcRepoRequired]
            \<or> trace (main env fl) = [EPrint MsgDestRepoRequired])"
proof -
  from assms have "Repository (srcArgs fl) = [] \<or> Repository (destArgs fl) = []"
    by (auto simp: effective_repository)
  then show ?thesis
    by (auto simp: main_def Let_def is_network_def)
qed

theorem missing_repository_stops_before_network_witness:
  "src_repo no_repo_flags = [] \<and> repo no_repo_flags = []
   \<and> exitCode (main (world []) no_repo_flags) = - 1
   \<and> trace (main (world []) no_repo_flags) = [EPrint MsgSrcRepoRequired]"
proof -
  have empty: "src_repo no_repo_flags = [] \<and> repo no_repo_flags = []"
    by (simp add: no_repo_flags_def copy_flags_def)
  then have "(src_repo no_repo_flags = [] \<and> repo no_repo_flags = [])
             \<or> (dest_repo no_repo_flags = [] \<and> repo no_repo_flags = [])" ..
  from missing_repository_stops_before_network [OF this, of "world []"] empty
  show ?thesis
    by (simp add: main_def Let_def effective_repository)
qed

subsection \<open>A destination that cannot be reached\<close>

text \<open>
  Claim C8. Take a run whose repository names are not empty. If connecting to the source
  returns a handle and connecting to the destination, from the log the source left, then
  fails with an error of the class \<open>ConnectionError\<close> (building the client or the ping),
  then \<open>main\<close> ends with exit code \<open>-1\<close>, and its log is the log of the two connections
  followed by the report of that error and nothing else: the source's part comes first and
  ends with its successful ping, the destination's part ends with the failed
  \<open>registry.New\<close> or the failed ping, and no \<open>HasLayer\<close>, \<open>DownloadLayer\<close> or \<open>UploadLayer\<close>
  call is made. If connecting to the source fails or panics, the log is the source's alone:
  the destination is not contacted. And a report of a failed destination connection is only
  ever printed in a run where the source connected and the destination returned that error.
\<close>
theorem destination_failure_aborts_after_source_success:
  assumes "Repository (srcArgs fl) \<noteq> []" and "Repository (destArgs fl) \<noteq> []"
  shows "(\<forall>srcHub tr1 e tr2.
            connectToRegistry env (srcArgs fl) [] = (Ok srcHub, tr1)
          \<and> connectToRegistry env (destArgs fl) tr1 = (Err e, tr2)
          \<and> class_of e = ConnectionError
          \<longrightarrow> main env fl
                = \<lparr>exitCode = - 1, trace = tr2 @ [EPrint (MsgDestConnFailed e)], heap = []\<rparr>
            \<and> calls is_layer_op (trace (main env fl)) = 0
            \<and> tr1 \<noteq> [] \<and> last tr1 = EPing srcHub None
            \<and> (\<exists>evs. tr2 = tr1 @ evs \<and> evs \<noteq> []
                   \<and> ((\<exists>url u p c. last evs = ERegistryNew url u p (Some c))
                        \<or> (\<exists>hub c. last evs = EPing hub (Some c)))))
       \<and> (\<forall>e tr1. connectToRegistry env (srcArgs fl) [] = (Err e, tr1)
             \<longrightarrow> trace (main env fl) = tr1 @ [EPrint (MsgSrcConnFailed e)])
       \<and> (\<forall>p tr1. connectToRegistry env (srcArgs fl) [] = (Panic p, tr1)
             \<longrightarrow> trace (main env fl) = tr1)
       \<and> (\<forall>e. EPrint (MsgDestConnFailed e) \<in> set (trace (main env fl))
             \<longrightarrow> (\<exists>srcHub tr1 tr2.
                    connectToRegistry env (srcArgs fl) [] = (Ok srcHub, tr1)
                  \<and> connectToRegistry env (destArgs fl) tr1 = (Err e, tr2)))"
proof (intro conjI allI impI)
  fix srcHub tr1 e tr2
  assume h: "connectToRegistry env (srcArgs fl) [] = (Ok srcHub, tr1)
          \<and> connectToRegistry env (destArgs fl) tr1 = (Err e, tr2)
          \<and> class_of e = ConnectionError"
  then have src: "connectToRegistry env (srcArgs fl) [] = (Ok srcHub, tr1)"
    and dest: "connectToRegistry env (destArgs fl) tr1 = (Err e, tr2)"
    and cls: "class_of e = ConnectionError"
    by simp_all
  show run: "main env fl
          = \<lparr>exitCode = - 1, trace = tr2 @ [EPrint (MsgDestConnFailed e)], heap = []\<rparr>"
    using assms src dest by (simp add: main_def Let_def)
  from connectToRegistry_events [OF src] have evs1: "list_all connect_event tr1"
    "tr1 \<noteq> []" "last tr1 = EPing srcHub None"
    by auto
  from connectToRegistry_events [OF dest] cls obtain evs where
    evs: "tr2 = tr1 @ evs" "list_all connect_event evs"
      "(\<exists>url u p c. evs \<noteq> [] \<and> last evs = ERegistryNew url u p (Some c))
       \<or> (\<exists>hub c. evs \<noteq> [] \<and> last evs = EPing hub (Some c))"
    by auto
  show "calls is_layer_op (trace (main env fl)) = 0"
    using evs1(1) evs(1,2) by (simp add: run connect_events_no_layer_op is_layer_op_def)
  show "tr1 \<noteq> []" "last tr1 = EPing srcHub None" by (fact evs1)+
  from evs(1,3) show "\<exists>evs. tr2 = tr1 @ evs \<and> evs \<noteq> []
                   \<and> ((\<exists>url u p c. last evs = ERegistryNew url u p (Some c))
                        \<or> (\<exists>hub c. last evs = EPing hub (Some c)))"
    by blast
next
  fix e tr1
  assume "connectToRegistry env (srcArgs fl) [] = (Err e, tr1)"
  with assms show "trace (main env fl) = tr1 @ [EPrint (MsgSrcConnFailed e)]"
    by (simp add: main_def Let_def)
next
  fix p tr1
  assume "connectToRegistry env (srcArgs fl) [] = (Panic p, tr1)"
  with assms show "trace (main env fl) = tr1"
    by (simp add: main_def Let_def)
next
  fix e
  assume printed: "EPrint (MsgDestConnFailed e) \<in> set (trace (main env fl))"
  show "\<exists>srcHub tr1 tr2.
           connectToRegistry env (srcArgs fl) [] = (Ok srcHub, tr1)
         \<and> connectToRegistry env (destArgs fl) tr1 = (Err e, tr2)"
  proof (cases rule: main_cases [of fl env])
    case no_src_repo
    with printed show ?thesis by simp
  next
    case no_dest_repo
    with printed show ?thesis by simp
  next
    case (src_panic p tr1)
    from connectToRegistry_events [OF src_panic(1)] printed src_panic(2) show ?thesis
      by (auto simp: connect_events_exclude)
  next
    case (src_failed e' tr1)
    from connectToRegistry_events [OF src_failed(1)] printed src_failed(2) show ?thesis
      by (auto simp: connect_events_exclude)
  next
    case (dest_panic srcHub tr1 p tr2)
    from connectToRegistry_events [OF dest_panic(1)] connectToRegistry_events [OF dest_panic(2)]
      printed dest_panic(3) show ?thesis
      by (auto simp: connect_events_exclude)
  next
    case (dest_failed srcHub tr1 e' tr2)
    from connectToRegistry_events [OF dest_failed(1)] connectToRegistry_events [OF dest_failed(2)]
      printed dest_failed(3) have "e' = e"
      by (auto simp: connect_events_exclude)
    with dest_failed(1,2) show ?thesis by blast
  next
    case (manifest_failed srcHub tr1 destHub tr2 c)
    from connectToRegistry_events [OF manifest_failed(1)]
      connectToRegistry_events [OF manifest_failed(2)] printed manifest_failed(3)
    show ?thesis
      by (auto simp: connect_events_exclude)
  next
    case (layer_failed srcHub tr1 destHub tr2 fetched e' tr4)
    from connectToRegistry_events [OF layer_failed(1)]
      connectToRegistry_events [OF layer_failed(2)] migrateLayers_events [OF layer_failed(3)]
      printed layer_failed(4)
    show ?thesis
      by (auto simp: connect_events_exclude layer_events_exclude)
  next
    case (published srcHub tr1 destHub tr2 fetched tr4 answer)
    from connectToRegistry_events [OF published(1)]
      connectToRegistry_events [OF published(2)] migrateLayers_events [OF published(3)]
      printed published(4)
    show ?thesis
      by (auto simp: connect_events_exclude layer_events_exclude split: option.splits)
  qed
qed


theorem destination_failure_aborts_after_source_success_witness:
  "Repository (srcArgs down_flags) \<noteq> [] \<and> Repository (destArgs down_flags) \<noteq> []
   \<and> connectToRegistry (world []) (srcArgs down_flags) []
       = (Ok hub_a, [ERegistryNew ''https://a.example.com'' [] [] None, EPing hub_a None])
   \<and> connectToRegistry (world []) (destArgs down_flags)
         [ERegistryNew ''https://a.example.com'' [] [] None, EPing hub_a None]
       = (Err (PingFailed ''https://down.example.com'' ''connection refused''),
          [ERegistryNew ''https://a.example.com'' [] [] None, EPing hub_a None,
           ERegistryNew ''https://down.example.com'' [] [] None,
           EPing \<lparr>URL = ''https://down.example.com'', Username = [], Password = []\<rparr>
             (Some ''connection refused'')])
   \<and> class_of (PingFailed ''https://down.example.com'' ''connection refused'') = ConnectionError
   \<and> main (world []) down_flags
       = \<lparr>exitCode = - 1,
          trace = [ERegistryNew ''https://a.example.com'' [] [] None, EPing hub_a None,
                   ERegistryNew ''https://down.example.com'' [] [] None,
                   EPing \<lparr>URL = ''https://down.example.com'', Username = [], Password = []\<rparr>
                     (Some ''connection refused'')] @
                  [EPrint (MsgDestConnFailed
                             (PingFailed ''https://down.example.com'' ''connection refused''))],
          heap = []\<rparr>
   \<and> calls is_layer_op (trace (main (world []) down_flags)) = 0"
proof -
  have names: "Repository (srcArgs down_flags) \<noteq> []" "Repository (destArgs down_flags) \<noteq> []"
    by (simp_all add: example_args)
  have src: "connectToRegistry (world []) (srcArgs down_flags) []
       = (Ok hub_a, [ERegistryNew ''https://a.example.com'' [] [] None, EPing hub_a None])"
    by (simp add: example_args connect_plain [OF ecr_find_examples(1)] hub_a_def)
  have dest: "connectToRegistry (world []) (destArgs down_flags)
         [ERegistryNew ''https://a.example.com'' [] [] None, EPing hub_a None]
       = (Err (PingFailed ''https://down.example.com'' ''connection refused''),
          [ERegistryNew ''https://a.example.com'' [] [] None, EPing hub_a None,
           ERegistryNew ''https://down.example.com'' [] [] None,
           EPing \<lparr>URL = ''https://down.example.com'', Username = [], Password = []\<rparr>
             (Some ''connection refused'')])"
    by (simp add: example_args connect_plain [OF ecr_find_examples(3)])
  have cls: "class_of (PingFailed ''https://down.example.com'' ''connection refused'')
               = ConnectionError"
    by (simp add: class_of_def)
  from destination_failure_aborts_after_source_success [OF names, of "world []"]
  have "connectToRegistry (world []) (srcArgs down_flags) []
          = (Ok hub_a, [ERegistryNew ''https://a.example.com'' [] [] None, EPing hub_a None])
        \<and> connectToRegistry (world []) (destArgs down_flags)
            [ERegistryNew ''https://a.example.com'' [] [] None, EPing hub_a None]
          = (Err (PingFailed ''https://down.example.com'' ''connection refused''),
             [ERegistryNew ''https://a.example.com'' [] [] None, EPing hub_a None,
              ERegistryNew ''https://down.example.com'' [] [] None,
              EPing \<lparr>URL = ''https://down.example.com'', Username = [], Password = []\<rparr>
                (Some ''connection refused'')])
        \<and> class_of (PingFailed ''https://down.example.com'' ''connection refused'')
            = ConnectionError
        \<longrightarrow> main (world []) down_flags
            = \<lparr>exitCode = - 1,
               trace = [ERegistryNew ''https://a.example.com'' [] [] None, EPing hub_a None,
                        ERegistryNew ''https://down.example.com'' [] [] None,
                        EPing \<lparr>URL = ''https://down.example.com'', Username = [], Password = []\<rparr>
                          (Some ''connection refused'')] @
                       [EPrint (MsgDestConnFailed
                                  (PingFailed ''https://down.example.com''
                                     ''connection refused''))],
               heap = []\<rparr>
          \<and> calls is_layer_op (trace (main (world []) down_flags)) = 0"
    by blast
  with names src dest cls show ?thesis by blast
qed

subsection \<open>The manifest that is published\<close>

text \<open>
  Claim C3. Whenever \<open>main\<close> reaches \<open>PutManifest\<close>, the manifest it passes is the manifest
  fetched from the source with the name replaced by the destination repository and nothing
  else changed: the layer list is the same list. It is passed under the destination's
  repository and tag. The object fetched from the source still holds what was fetched; the
  published manifest is a second object, whose serialised bytes are empty.
\<close>
theorem published_manifest_is_renamed_copy:
  assumes "EPutManifest hub r t published answer \<in> set (trace (main env fl))"
  shows "\<exists>srcHub fetched.
           EManifest srcHub (Repository (srcArgs fl)) (Tag_arg (srcArgs fl)) (Inr fetched)
             \<in> set (trace (main env fl))
         \<and> FSLayers (Manifest published) = FSLayers (Manifest fetched)
         \<and> Manifest published = (Manifest fetched)\<lparr>Name := Repository (destArgs fl)\<rparr>
         \<and> Raw published = []
         \<and> r = Repository (destArgs fl) \<and> t = Tag_arg (destArgs fl)
         \<and> heap (main env fl) = [fetched, published]"
proof (cases rule: main_cases [of fl env])
  case no_src_repo
  with assms show ?thesis by simp
next
  case no_dest_repo
  with assms show ?thesis by simp
next
  case (src_panic p tr1)
  from connectToRegistry_events [OF src_panic(1)] assms src_panic(2) show ?thesis
    by (auto simp: connect_events_exclude)
next
  case (src_failed e' tr1)
  from connectToRegistry_events [OF src_failed(1)] assms src_failed(2) show ?thesis
    by (auto simp: connect_events_exclude)
next
  case (dest_panic srcHub tr1 p tr2)
  from connectToRegistry_events [OF dest_panic(1)] connectToRegistry_events [OF dest_panic(2)]
    assms dest_panic(3) show ?thesis
    by (auto simp: connect_events_exclude)
next
  case (dest_failed srcHub tr1 e' tr2)
  from connectToRegistry_events [OF dest_failed(1)] connectToRegistry_events [OF dest_failed(2)]
    assms dest_failed(3) show ?thesis
    by (auto simp: connect_events_exclude)
next
  case (manifest_failed srcHub tr1 destHub tr2 c)
  from connectToRegistry_events [OF manifest_failed(1)]
    connectToRegistry_events [OF manifest_failed(2)] assms manifest_failed(3)
  show ?thesis
    by (auto simp: connect_events_exclude)
next
  case (layer_failed srcHub tr1 destHub tr2 fetched e' tr4)
  from connectToRegistry_events [OF layer_failed(1)]
    connectToRegistry_events [OF layer_failed(2)] migrateLayers_events [OF layer_failed(3)]
    assms layer_failed(4)
  show ?thesis
    by (auto simp: connect_events_exclude layer_events_exclude)
next
  case (published srcHub tr1 destHub tr2 fetched tr4 answer')
  let ?copy = "\<lparr>Manifest = (Manifest fetched)\<lparr>Name := Repository (destArgs fl)\<rparr>, Raw = []\<rparr>"
  from connectToRegistry_events [OF published(1)] obtain evs1 where
    evs1: "tr1 = evs1" "list_all connect_event evs1" by auto
  from connectToRegistry_events [OF published(2)] obtain evs2 where
    evs2: "tr2 = tr1 @ evs2" "list_all connect_event evs2" by auto
  from migrateLayers_events [OF published(3)] obtain evs3 where
    evs3: "tr4 = (tr2 @ [EManifest srcHub (Repository (srcArgs fl)) (Tag_arg (srcArgs fl))
                           (Inr fetched)]) @ evs3"
      "list_all layer_event evs3" by auto
  from assms published(4) evs1 evs2 evs3
  have put: "r = Repository (destArgs fl)" "t = Tag_arg (destArgs fl)" "published = ?copy"
    by (auto simp: connect_events_exclude layer_events_exclude split: option.splits)
  have "EManifest srcHub (Repository (srcArgs fl)) (Tag_arg (srcArgs fl)) (Inr fetched)
          \<in> set (trace (main env fl))"
    using published(4) evs3(1) by simp
  moreover have "heap (main env fl) = [fetched, published]"
    using published(4) put(3) by simp
  moreover have "Manifest published = (Manifest fetched)\<lparr>Name := Repository (destArgs fl)\<rparr>"
    "FSLayers (Manifest published) = FSLayers (Manifest fetched)" "Raw published = []"
    using put(3) by simp_all
  ultimately show ?thesis using put(1,2) by blast
qed

theorem published_manifest_is_renamed_copy_witness:
  "EPutManifest hub_b ''app'' ''v1'' published_image None \<in> set (trace (main (world []) copy_flags))
   \<and> EManifest hub_a ''team/app'' ''latest'' (Inr (example_image ''team/app'' ''latest''))
       \<in> set (trace (main (world []) copy_flags))
   \<and> map BlobSum (FSLayers (Manifest published_image)) = [''sha256:d1'', ''sha256:d2'']
   \<and> map BlobSum (FSLayers (Manifest (example_image ''team/app'' ''latest''))) = [''sha256:d1'', ''sha256:d2'']
   \<and> Name (Manifest published_image) = ''app''
   \<and> heap (main (world []) copy_flags) ! 0 = example_image ''team/app'' ''latest''"
proof -
  have put: "EPutManifest hub_b ''app'' ''v1'' published_image None
               \<in> set (trace (main (world []) copy_flags))"
    by (simp add: run_copy)
  from published_manifest_is_renamed_copy [OF put]
  have "FSLayers (Manifest published_image) = FSLayers (Manifest (hd (heap (main (world []) copy_flags))))"
    by auto
  with put show ?thesis
    by (simp add: run_copy example_image_def published_image_def)
qed

end
